theory Spec2Isabelle
  imports Complex_Main "HOL-Library.Multiset"
begin

section \<open>Common modelling conventions\<close>

text \<open>
  The three engines (\<^verbatim>\<open>app/services/risk_engine.py\<close>, \<^verbatim>\<open>signal_engine.py\<close>,
  \<^verbatim>\<open>recommendation_engine.py\<close>) are embedded function by function.

  \<^item> Python \<^verbatim>\<open>float\<close> values are modelled as \<^typ>\<open>real\<close>: arithmetic is exact, IEEE-754
    rounding, infinities and NaN are outside the model.
  \<^item> Python \<^verbatim>\<open>int\<close> values are \<^typ>\<open>int\<close>; \<^verbatim>\<open>Optional[float] = None\<close> parameters are
    \<^typ>\<open>real option\<close>.
  \<^item> An f-string is a list of pieces: literal text and formatted numbers (the digits a
    format specification produces are not computed).
  \<^item> What an operation reads from or writes to its surroundings is explicit: the world
    holds the clock that \<^verbatim>\<open>datetime.utcnow()\<close> reads and the log that \<^verbatim>\<open>logger.info\<close>
    appends to. An operation that logs or reads the clock takes the world and returns its
    result together with the world afterwards.
\<close>

datatype piece =
    Txt string          \<comment> \<open>literal text, or a string substituted as it is\<close>
  | Fixed nat real      \<comment> \<open>\<^verbatim>\<open>{x:.nf}\<close>\<close>
  | FixedSep nat real   \<comment> \<open>\<^verbatim>\<open>{x:,.nf}\<close>\<close>
  | Repr real           \<comment> \<open>\<^verbatim>\<open>{x}\<close> for a float\<close>
  | Dec int             \<comment> \<open>\<^verbatim>\<open>{n}\<close> for an int\<close>

type_synonym fstring = "piece list"

type_synonym datetime = int

record world =
  clock :: datetime
  logged :: "fstring list"

definition logger_info :: "fstring \<Rightarrow> world \<Rightarrow> world" where
  "logger_info msg w = w\<lparr>logged := logged w @ [msg]\<rparr>"

definition utcnow :: "world \<Rightarrow> datetime" where
  "utcnow w = clock w"

text \<open>
  \<^verbatim>\<open>sorted(xs, key=f, reverse=True)\<close> and \<^verbatim>\<open>xs.sort(key=f, reverse=True)\<close>: Python's
  built-in sort is stable, also with \<^verbatim>\<open>reverse=True\<close> (elements with equal keys keep
  their original order). It is modelled by the stable insertion sort of the library on
  the negated key.
\<close>

definition sort_reverse :: "('a \<Rightarrow> real) \<Rightarrow> 'a list \<Rightarrow> 'a list" where
  "sort_reverse f xs = sort_key (\<lambda>x. - f x) xs"

text \<open>\<^verbatim>\<open>xs[:n]\<close>: a negative bound counts from the end of the list.\<close>

definition slice_to :: "int \<Rightarrow> 'a list \<Rightarrow> 'a list" where
  "slice_to n xs =
     (if 0 \<le> n then take (nat n) xs else take (nat (int (length xs) + n)) xs)"

text \<open>\<^verbatim>\<open>d.get(k, default)\<close> on a dictionary given as a map.\<close>

definition dict_get :: "('k \<rightharpoonup> 'v) \<Rightarrow> 'k \<Rightarrow> 'v \<Rightarrow> 'v" where
  "dict_get d k dflt = (case d k of None \<Rightarrow> dflt | Some v \<Rightarrow> v)"

section \<open>Risk engine\<close>

datatype RiskLevel = CONSERVATIVE | MODERATE | AGGRESSIVE

fun risk_level_value :: "RiskLevel \<Rightarrow> string" where
  "risk_level_value CONSERVATIVE = ''Conservative''"
| "risk_level_value MODERATE = ''Moderate''"
| "risk_level_value AGGRESSIVE = ''Aggressive''"

record RiskComponents =
  volatility_score :: real
  beta_score :: real
  leverage_score :: real
  earnings_stability_score :: real
  sector_risk_score :: real
  valuation_risk_score :: real

record RiskAnalysis =
  ra_ticker :: string
  overall_risk_score :: real
  risk_level :: RiskLevel
  components :: RiskComponents
  risk_band :: string
  ra_explanation :: fstring

text \<open>The class constants \<^verbatim>\<open>WEIGHTS\<close>, the two thresholds and \<^verbatim>\<open>SECTOR_RISK_MAP\<close>.\<close>

definition RISK_WEIGHTS :: "string \<rightharpoonup> real" where
  "RISK_WEIGHTS = map_of
     [(''volatility'', 0.20), (''beta'', 0.15), (''leverage'', 0.20),
      (''earnings_stability'', 0.15), (''sector'', 0.10), (''valuation'', 0.20)]"

definition CONSERVATIVE_THRESHOLD :: real where
  "CONSERVATIVE_THRESHOLD = 33.33"

definition MODERATE_THRESHOLD :: real where
  "MODERATE_THRESHOLD = 66.67"

definition SECTOR_RISK_MAP :: "(string \<times> real) list" where
  "SECTOR_RISK_MAP =
     [(''Technology'', 65), (''Healthcare'', 55), (''Financials'', 60), (''Energy'', 70),
      (''Utilities'', 30), (''Consumer Staples'', 35), (''Consumer Discretionary'', 55),
      (''Industrials'', 50), (''Materials'', 60), (''Real Estate'', 50),
      (''Communication Services'', 55)]"

definition calculate_volatility_score :: "real \<Rightarrow> real option \<Rightarrow> real" where
  "calculate_volatility_score historical_volatility volatility_percentile =
     (let vol_pct = historical_volatility * 100;
          base_score = min (vol_pct * 2) 100;
          base_score = (case volatility_percentile of
                          None \<Rightarrow> base_score
                        | Some p \<Rightarrow> (base_score * 0.6) + (p * 0.4))
      in min (max base_score 0) 100)"

definition calculate_beta_score :: "real \<Rightarrow> real" where
  "calculate_beta_score beta =
     (if beta < 0 then max 0 (50 + (beta * 25))
      else let score = beta * 50 in min (max score 0) 100)"

definition calculate_leverage_score :: "real \<Rightarrow> real option \<Rightarrow> real" where
  "calculate_leverage_score debt_to_equity interest_coverage =
     (let de_score = min ((debt_to_equity / 3.0) * 100) 100;
          de_score = (case interest_coverage of
                        None \<Rightarrow> de_score
                      | Some ic \<Rightarrow>
                          (let coverage_penalty =
                                 (if ic < 1.5 then 30
                                  else if ic < 3.0 then 15
                                  else if ic < 5.0 then 5
                                  else 0)
                           in min (de_score + coverage_penalty) 100))
      in min (max de_score 0) 100)"

definition calculate_earnings_stability_score :: "real \<Rightarrow> int \<Rightarrow> real" where
  "calculate_earnings_stability_score earnings_volatility consecutive_profitable_quarters =
     (let volatility_score = min (earnings_volatility * 100) 100;
          stability_bonus =
            (if consecutive_profitable_quarters \<ge> 12 then -30
             else if consecutive_profitable_quarters \<ge> 8 then -20
             else if consecutive_profitable_quarters \<ge> 4 then -10
             else 20);
          final_score = volatility_score + stability_bonus
      in min (max final_score 0) 100)"

definition calculate_sector_risk_score :: "string \<Rightarrow> real" where
  "calculate_sector_risk_score sector = dict_get (map_of SECTOR_RISK_MAP) sector 50"

text \<open>
  \<^verbatim>\<open>calculate_valuation_risk_score\<close> appends to the list \<^verbatim>\<open>scores\<close> one entry for each
  ratio that is supplied and strictly positive, in the order P/E, P/B, P/S.
\<close>

definition valuation_scores :: "real option \<Rightarrow> real option \<Rightarrow> real option \<Rightarrow> real list" where
  "valuation_scores pe_ratio price_to_book price_to_sales =
     (let scores = [];
          scores = (case pe_ratio of
                      None \<Rightarrow> scores
                    | Some pe \<Rightarrow>
                        if pe > 0 then scores @ [min ((pe / 50) * 100) 100] else scores);
          scores = (case price_to_book of
                      None \<Rightarrow> scores
                    | Some pb \<Rightarrow>
                        if pb > 0 then scores @ [min ((pb / 8) * 100) 100] else scores);
          scores = (case price_to_sales of
                      None \<Rightarrow> scores
                    | Some ps \<Rightarrow>
                        if ps > 0 then scores @ [min ((ps / 8) * 100) 100] else scores)
      in scores)"

definition calculate_valuation_risk_score ::
  "real option \<Rightarrow> real option \<Rightarrow> real option \<Rightarrow> real" where
  "calculate_valuation_risk_score pe_ratio price_to_book price_to_sales =
     (let scores = valuation_scores pe_ratio price_to_book price_to_sales
      in if scores \<noteq> [] then sum_list scores / real (length scores) else 50)"

text \<open>\<^verbatim>\<open>self.WEIGHTS[k]\<close> for the six keys the class constant defines.\<close>

definition risk_weight :: "string \<Rightarrow> real" where
  "risk_weight k = the (RISK_WEIGHTS k)"

definition calculate_overall_risk :: "RiskComponents \<Rightarrow> real" where
  "calculate_overall_risk c =
     (let overall =
            risk_weight ''volatility'' * volatility_score c +
            risk_weight ''beta'' * beta_score c +
            risk_weight ''leverage'' * leverage_score c +
            risk_weight ''earnings_stability'' * earnings_stability_score c +
            risk_weight ''sector'' * sector_risk_score c +
            risk_weight ''valuation'' * valuation_risk_score c
      in min (max overall 0) 100)"

definition classify_risk_level :: "real \<Rightarrow> RiskLevel" where
  "classify_risk_level risk_score =
     (if risk_score \<le> CONSERVATIVE_THRESHOLD then CONSERVATIVE
      else if risk_score \<le> MODERATE_THRESHOLD then MODERATE
      else AGGRESSIVE)"

definition get_risk_band :: "real \<Rightarrow> string" where
  "get_risk_band risk_score =
     (if risk_score \<le> CONSERVATIVE_THRESHOLD then ''0-33''
      else if risk_score \<le> MODERATE_THRESHOLD then ''34-66''
      else ''67-100'')"

definition risk_generate_explanation ::
  "string \<Rightarrow> real \<Rightarrow> RiskLevel \<Rightarrow> RiskComponents \<Rightarrow> fstring" where
  "risk_generate_explanation ticker risk_score level c =
     (let component_scores =
            [(''Volatility'', volatility_score c),
             (''Beta'', beta_score c),
             (''Leverage'', leverage_score c),
             (''Earnings Stability'', earnings_stability_score c),
             (''Sector'', sector_risk_score c),
             (''Valuation'', valuation_risk_score c)];
          sorted_components = sort_reverse snd component_scores;
          top_risks = slice_to 2 sorted_components
      in [Txt ticker, Txt '' has an overall risk score of '', Fixed 1 risk_score,
          Txt '', classified as '', Txt (risk_level_value level), Txt ''. '',
          Txt ''Primary risk factors are '', Txt (fst (top_risks ! 0)),
          Txt '' ('', Fixed 1 (snd (top_risks ! 0)), Txt '') '',
          Txt ''and '', Txt (fst (top_risks ! 1)),
          Txt '' ('', Fixed 1 (snd (top_risks ! 1)), Txt '').''])"

definition analyze_stock_risk ::
  "string \<Rightarrow> real \<Rightarrow> real \<Rightarrow> real \<Rightarrow> real \<Rightarrow> int \<Rightarrow> string \<Rightarrow>
   real option \<Rightarrow> real option \<Rightarrow> real option \<Rightarrow> real option \<Rightarrow> real option \<Rightarrow>
   world \<Rightarrow> RiskAnalysis \<times> world" where
  "analyze_stock_risk ticker historical_volatility beta debt_to_equity earnings_volatility
     consecutive_profitable_quarters sector volatility_percentile interest_coverage
     pe_ratio price_to_book price_to_sales w =
     (let w = logger_info [Txt ''Analyzing risk for '', Txt ticker] w;
          comps = \<lparr>volatility_score =
                     calculate_volatility_score historical_volatility volatility_percentile,
                   beta_score = calculate_beta_score beta,
                   leverage_score = calculate_leverage_score debt_to_equity interest_coverage,
                   earnings_stability_score =
                     calculate_earnings_stability_score earnings_volatility
                       consecutive_profitable_quarters,
                   sector_risk_score = calculate_sector_risk_score sector,
                   valuation_risk_score =
                     calculate_valuation_risk_score pe_ratio price_to_book price_to_sales\<rparr>;
          overall_risk = calculate_overall_risk comps;
          level = classify_risk_level overall_risk;
          band = get_risk_band overall_risk;
          explanation = risk_generate_explanation ticker overall_risk level comps;
          w = logger_info [Txt ''Risk analysis complete for '', Txt ticker, Txt '': '',
                           Txt ''score='', Fixed 1 overall_risk,
                           Txt '', level='', Txt (risk_level_value level)] w
      in (\<lparr>ra_ticker = ticker,
           overall_risk_score = overall_risk,
           risk_level = level,
           components = comps,
           risk_band = band,
           ra_explanation = explanation\<rparr>, w))"

section \<open>Signal engine\<close>

datatype SignalType =
  EARNINGS_SURPRISE | INSTITUTIONAL_BUYING | INSIDER_BUYING | SENTIMENT_SPIKE

text \<open>The values stored in the free-form \<^verbatim>\<open>metadata\<close> dictionaries.\<close>

datatype meta_value = MFloat real | MInt int | MStr string | MNone

record Signal =
  sig_ticker :: string
  signal_type :: SignalType
  strength :: real
  confidence :: real
  timestamp :: datetime
  metadata :: "(string \<times> meta_value) list"

text \<open>
  \<^verbatim>\<open>timestamp or datetime.utcnow()\<close>: a \<^verbatim>\<open>datetime\<close> object is always truthy, so the
  supplied timestamp is used whenever there is one, and the clock is read otherwise.
\<close>

definition timestamp_or_now :: "datetime option \<Rightarrow> world \<Rightarrow> datetime" where
  "timestamp_or_now ts w = (case ts of Some t \<Rightarrow> t | None \<Rightarrow> utcnow w)"

definition detect_earnings_surprise ::
  "string \<Rightarrow> real \<Rightarrow> real \<Rightarrow> datetime option \<Rightarrow> world \<Rightarrow> Signal option \<times> world" where
  "detect_earnings_surprise ticker actual_eps estimated_eps ts w =
     (if estimated_eps = 0 then (None, w)
      else
        let surprise_pct = ((actual_eps - estimated_eps) / \<bar>estimated_eps\<bar>) * 100
        in if \<bar>surprise_pct\<bar> < 5 then (None, w)
           else
             let strength = min (\<bar>surprise_pct\<bar> * 2) 100;
                 confidence = 95.0;
                 w = logger_info
                       [Txt ''Earnings surprise detected for '', Txt ticker, Txt '': '',
                        Txt ''actual='', Repr actual_eps, Txt '', estimated='',
                        Repr estimated_eps, Txt '', surprise='', Fixed 1 surprise_pct,
                        Txt ''%''] w
             in (Some \<lparr>sig_ticker = ticker,
                       signal_type = EARNINGS_SURPRISE,
                       strength = strength,
                       confidence = confidence,
                       timestamp = timestamp_or_now ts w,
                       metadata = [(''actual_eps'', MFloat actual_eps),
                                   (''estimated_eps'', MFloat estimated_eps),
                                   (''surprise_pct'', MFloat surprise_pct)]\<rparr>, w))"

definition detect_institutional_buying ::
  "string \<Rightarrow> real \<Rightarrow> int \<Rightarrow> datetime option \<Rightarrow> world \<Rightarrow> Signal option \<times> world" where
  "detect_institutional_buying ticker institutional_ownership_change num_institutions_buying
     ts w =
     (if institutional_ownership_change < 2.0 \<or> num_institutions_buying < 3 then (None, w)
      else
        let ownership_component = min (institutional_ownership_change * 10) 50;
            institution_component = min (num_institutions_buying * 5) 50;
            strength = ownership_component + real_of_int institution_component;
            confidence = min (60 + (num_institutions_buying * 5)) 95;
            w = logger_info
                  [Txt ''Institutional buying detected for '', Txt ticker, Txt '': '',
                   Txt ''ownership_change='', Fixed 1 institutional_ownership_change,
                   Txt ''%, '', Txt ''institutions='', Dec num_institutions_buying] w
        in (Some \<lparr>sig_ticker = ticker,
                  signal_type = INSTITUTIONAL_BUYING,
                  strength = strength,
                  confidence = real_of_int confidence,
                  timestamp = timestamp_or_now ts w,
                  metadata = [(''ownership_change_pct'', MFloat institutional_ownership_change),
                              (''num_institutions'', MInt num_institutions_buying)]\<rparr>, w))"

definition detect_insider_buying ::
  "string \<Rightarrow> real \<Rightarrow> real \<Rightarrow> int \<Rightarrow> datetime option \<Rightarrow> world \<Rightarrow> Signal option \<times> world" where
  "detect_insider_buying ticker insider_buy_volume insider_sell_volume num_insiders_buying
     ts w =
     (let net_buying = insider_buy_volume - insider_sell_volume
      in if net_buying \<le> 0 \<or> num_insiders_buying < 2 then (None, w)
         else
           let buy_sell_ratio =
                 (if insider_sell_volume > 0 then insider_buy_volume / insider_sell_volume
                  else 10.0);
               ratio_component = min (buy_sell_ratio * 20) 60;
               insider_component = min (num_insiders_buying * 10) 40;
               strength = ratio_component + real_of_int insider_component;
               confidence = 75.0;
               w = logger_info
                     [Txt ''Insider buying detected for '', Txt ticker, Txt '': '',
                      Txt ''net_buying=$'', FixedSep 0 net_buying, Txt '', '',
                      Txt ''insiders='', Dec num_insiders_buying] w
           in (Some \<lparr>sig_ticker = ticker,
                     signal_type = INSIDER_BUYING,
                     strength = strength,
                     confidence = confidence,
                     timestamp = timestamp_or_now ts w,
                     metadata = [(''buy_volume'', MFloat insider_buy_volume),
                                 (''sell_volume'', MFloat insider_sell_volume),
                                 (''net_buying'', MFloat net_buying),
                                 (''num_insiders'', MInt num_insiders_buying),
                                 (''buy_sell_ratio'', MFloat buy_sell_ratio)]\<rparr>, w))"

definition detect_sentiment_spike ::
  "string \<Rightarrow> real \<Rightarrow> real \<Rightarrow> int \<Rightarrow> datetime option \<Rightarrow> world \<Rightarrow> Signal option \<times> world" where
  "detect_sentiment_spike ticker current_sentiment baseline_sentiment mention_volume ts w =
     (let sentiment_change = current_sentiment - baseline_sentiment
      in if \<bar>sentiment_change\<bar> < 0.2 \<or> mention_volume < 100 then (None, w)
         else
           let sentiment_component = min (\<bar>sentiment_change\<bar> * 100) 70;
               volume_component = min (real_of_int mention_volume / 100) 30;
               strength = sentiment_component + volume_component;
               confidence = 60.0;
               w = logger_info
                     [Txt ''Sentiment spike detected for '', Txt ticker, Txt '': '',
                      Txt ''change='', Fixed 2 sentiment_change, Txt '', '',
                      Txt ''mentions='', Dec mention_volume] w
           in (Some \<lparr>sig_ticker = ticker,
                     signal_type = SENTIMENT_SPIKE,
                     strength = strength,
                     confidence = confidence,
                     timestamp = timestamp_or_now ts w,
                     metadata = [(''current_sentiment'', MFloat current_sentiment),
                                 (''baseline_sentiment'', MFloat baseline_sentiment),
                                 (''sentiment_change'', MFloat sentiment_change),
                                 (''mention_volume'', MInt mention_volume)]\<rparr>, w))"

definition aggregate_signals :: "Signal list \<Rightarrow> string \<Rightarrow> world \<Rightarrow> real \<times> world" where
  "aggregate_signals signals ticker w =
     (if signals = [] then (50.0, w)
      else
        let weighted_sum = sum_list (map (\<lambda>s. strength s * (confidence s / 100)) signals);
            weight_total = sum_list (map (\<lambda>s. confidence s / 100) signals)
        in if weight_total = 0 then (50.0, w)
           else
             let aggregated = weighted_sum / weight_total;
                 w = logger_info
                       [Txt ''Aggregated '', Dec (int (length signals)), Txt '' signals for '',
                        Txt ticker, Txt '': score='', Fixed 1 aggregated] w
             in (min (max aggregated 0) 100, w))"

section \<open>Recommendation engine\<close>

datatype py_error = KeyError string

record RecommendationScore =
  research_score :: real
  signal_score :: real
  risk_alignment_score :: real
  macro_fit_score :: real
  final_score :: real

record StockRecommendation =
  ticker :: string
  scores :: RecommendationScore
  explanation :: fstring
  reasoning_metadata :: "(string \<times> meta_value) list"
  rank :: int

text \<open>
  A candidate is a Python dictionary. The engine reads five of its keys, each of which
  may be missing: the model is a record with one optional field per key, the strings and
  numbers typed as the engine uses them.
\<close>

record stock =
  stock_ticker :: "string option"
  stock_sector :: "string option"
  stock_risk_score :: "real option"
  stock_research_score :: "real option"
  stock_signal_score :: "real option"

text \<open>\<^verbatim>\<open>stock.get(key, default)\<close> and \<^verbatim>\<open>stock[key]\<close> on such a dictionary.\<close>

definition get_or :: "'a option \<Rightarrow> 'a \<Rightarrow> 'a" where
  "get_or field dflt = (case field of None \<Rightarrow> dflt | Some v \<Rightarrow> v)"

definition subscript :: "string \<Rightarrow> 'a option \<Rightarrow> py_error + 'a" where
  "subscript key field = (case field of None \<Rightarrow> Inl (KeyError key) | Some v \<Rightarrow> Inr v)"

definition REC_WEIGHTS :: "string \<rightharpoonup> real" where
  "REC_WEIGHTS = map_of
     [(''research'', 0.4), (''signal'', 0.3), (''risk_alignment'', 0.2), (''macro_fit'', 0.1)]"

definition rec_weight :: "string \<Rightarrow> real" where
  "rec_weight k = the (REC_WEIGHTS k)"

text \<open>The local dictionary \<^verbatim>\<open>risk_bands\<close> of the two functions that use the bands.\<close>

definition risk_bands :: "(string \<times> (int \<times> int)) list" where
  "risk_bands =
     [(''Conservative'', (0, 33)), (''Moderate'', (34, 66)), (''Aggressive'', (67, 100))]"

definition calculate_risk_alignment_score :: "real \<Rightarrow> string \<Rightarrow> real \<Rightarrow> real" where
  "calculate_risk_alignment_score stock_risk user_risk_level user_volatility_tolerance =
     (let (min_risk, max_risk) = dict_get (map_of risk_bands) user_risk_level (0, 100);
          base_score =
            (if real_of_int min_risk \<le> stock_risk \<and> stock_risk \<le> real_of_int max_risk
             then 100
             else
               let distance =
                     (if stock_risk < real_of_int min_risk
                      then real_of_int min_risk - stock_risk
                      else stock_risk - real_of_int max_risk)
               in max 0 (100 - (distance * 2)));
          volatility_factor = user_volatility_tolerance / 100;
          adjusted_score = base_score * (0.7 + (volatility_factor * 0.3))
      in min (max adjusted_score 0) 100)"

text \<open>The local dictionary \<^verbatim>\<open>sector_scores\<close> of \<^verbatim>\<open>calculate_macro_fit_score\<close>.\<close>

definition sector_scores :: "(string \<times> (string \<times> real) list) list" where
  "sector_scores =
     [(''bull'',
        [(''Technology'', 80), (''Consumer Discretionary'', 75), (''Financials'', 70),
         (''Industrials'', 65), (''Energy'', 60), (''Materials'', 60), (''Healthcare'', 55),
         (''Consumer Staples'', 50), (''Utilities'', 45), (''Real Estate'', 50)]),
      (''bear'',
        [(''Utilities'', 80), (''Consumer Staples'', 75), (''Healthcare'', 70),
         (''Real Estate'', 60), (''Financials'', 50), (''Industrials'', 45),
         (''Materials'', 45), (''Energy'', 50), (''Technology'', 40),
         (''Consumer Discretionary'', 35)]),
      (''neutral'',
        map (\<lambda>sector. (sector, 50))
          [''Technology'', ''Healthcare'', ''Financials'', ''Energy'',
           ''Utilities'', ''Consumer Staples'', ''Consumer Discretionary'',
           ''Industrials'', ''Materials'', ''Real Estate''])]"

text \<open>The default of the parameter \<^verbatim>\<open>current_market_regime\<close>.\<close>

definition default_market_regime :: string where
  "default_market_regime = ''neutral''"

definition calculate_macro_fit_score :: "string \<Rightarrow> string \<Rightarrow> real" where
  "calculate_macro_fit_score sector current_market_regime =
     (let regime_scores =
            dict_get (map_of sector_scores) current_market_regime
              (the (map_of sector_scores ''neutral''))
      in dict_get (map_of regime_scores) sector 50)"

definition calculate_final_score :: "real \<Rightarrow> real \<Rightarrow> real \<Rightarrow> real \<Rightarrow> real" where
  "calculate_final_score research signal risk_alignment macro_fit =
     (let final =
            rec_weight ''research'' * research +
            rec_weight ''signal'' * signal +
            rec_weight ''risk_alignment'' * risk_alignment +
            rec_weight ''macro_fit'' * macro_fit
      in min (max final 0) 100)"

definition generate_explanation ::
  "string \<Rightarrow> RecommendationScore \<Rightarrow> string \<Rightarrow> string \<Rightarrow> fstring" where
  "generate_explanation tick sc sector user_risk_level =
     [Txt tick, Txt '' is recommended with a score of '', Fixed 1 (final_score sc),
      Txt ''/100. '',
      Txt ''This recommendation is based on strong research quality ('',
      Fixed 1 (research_score sc), Txt ''), '',
      Txt ''positive market signals ('', Fixed 1 (signal_score sc), Txt ''), '',
      Txt ''good alignment with your '', Txt user_risk_level, Txt '' risk profile ('',
      Fixed 1 (risk_alignment_score sc), Txt ''), '',
      Txt ''and favorable macro conditions for '', Txt sector, Txt '' ('',
      Fixed 1 (macro_fit_score sc), Txt '').'']"

definition filter_by_risk_band :: "stock list \<Rightarrow> string \<Rightarrow> world \<Rightarrow> stock list \<times> world" where
  "filter_by_risk_band stocks user_risk_level w =
     (let (min_risk, max_risk) = dict_get (map_of risk_bands) user_risk_level (0, 100);
          filtered =
            filter (\<lambda>s. real_of_int min_risk \<le> get_or (stock_risk_score s) 50 \<and>
                        get_or (stock_risk_score s) 50 \<le> real_of_int max_risk) stocks;
          w = logger_info
                [Txt ''Filtered '', Dec (int (length stocks)), Txt '' stocks to '',
                 Dec (int (length filtered)), Txt '' '', Txt ''for '', Txt user_risk_level,
                 Txt '' risk level''] w
      in (filtered, w))"

text \<open>
  The body of the loop of \<^verbatim>\<open>rank_recommendations\<close>: the recommendation built for one
  candidate, with rank 0. \<^verbatim>\<open>stock["ticker"]\<close> raises \<^verbatim>\<open>KeyError\<close> when the candidate
  has no ticker; every other key is read with a default.
\<close>

definition recommendation_for :: "stock \<Rightarrow> string \<Rightarrow> real \<Rightarrow> py_error + StockRecommendation" where
  "recommendation_for s user_risk_level user_volatility_tolerance =
     (let risk_alignment =
            calculate_risk_alignment_score (get_or (stock_risk_score s) 50) user_risk_level
              user_volatility_tolerance;
          macro_fit =
            calculate_macro_fit_score (get_or (stock_sector s) ''Unknown'')
              default_market_regime;
          final =
            calculate_final_score (get_or (stock_research_score s) 50)
              (get_or (stock_signal_score s) 50) risk_alignment macro_fit;
          sc = \<lparr>research_score = get_or (stock_research_score s) 50,
                signal_score = get_or (stock_signal_score s) 50,
                risk_alignment_score = risk_alignment,
                macro_fit_score = macro_fit,
                final_score = final\<rparr>
      in case subscript ''ticker'' (stock_ticker s) of
           Inl e \<Rightarrow> Inl e
         | Inr tick \<Rightarrow>
             Inr \<lparr>ticker = tick,
                  scores = sc,
                  explanation =
                    generate_explanation tick sc (get_or (stock_sector s) ''Unknown'')
                      user_risk_level,
                  reasoning_metadata =
                    [(''research_score'', MFloat (research_score sc)),
                     (''signal_score'', MFloat (signal_score sc)),
                     (''risk_alignment_score'', MFloat (risk_alignment_score sc)),
                     (''macro_fit_score'', MFloat (macro_fit_score sc)),
                     (''user_risk_level'', MStr user_risk_level),
                     (''stock_sector'',
                        (case stock_sector s of None \<Rightarrow> MNone | Some x \<Rightarrow> MStr x))],
                  rank = 0\<rparr>)"

text \<open>The loop: it appends one recommendation per candidate and stops at the first error.\<close>

fun build_recommendations ::
  "stock list \<Rightarrow> string \<Rightarrow> real \<Rightarrow> StockRecommendation list \<Rightarrow>
   py_error + StockRecommendation list" where
  "build_recommendations [] lvl tol recommendations = Inr recommendations"
| "build_recommendations (s # rest) lvl tol recommendations =
     (case recommendation_for s lvl tol of
        Inl e \<Rightarrow> Inl e
      | Inr r \<Rightarrow> build_recommendations rest lvl tol (recommendations @ [r]))"

text \<open>
  \<^verbatim>\<open>for i, rec in enumerate(recommendations[:top_n], 1): rec.rank = i\<close>; the slice holds
  the same objects as the list, so the slice that is returned carries the ranks.
\<close>

definition assign_ranks :: "StockRecommendation list \<Rightarrow> StockRecommendation list" where
  "assign_ranks recs = map (\<lambda>(i, r). r\<lparr>rank := int i\<rparr>) (List.enumerate 1 recs)"

definition rank_recommendations ::
  "stock list \<Rightarrow> string \<Rightarrow> real \<Rightarrow> int \<Rightarrow> world \<Rightarrow>
   (py_error + StockRecommendation list) \<times> world" where
  "rank_recommendations stocks user_risk_level user_volatility_tolerance top_n w =
     (let w = logger_info
                [Txt ''Ranking '', Dec (int (length stocks)),
                 Txt '' stocks for recommendations''] w
      in case build_recommendations stocks user_risk_level user_volatility_tolerance [] of
           Inl e \<Rightarrow> (Inl e, w)
         | Inr recommendations \<Rightarrow>
             let recommendations = sort_reverse (\<lambda>x. final_score (scores x)) recommendations;
                 ranked = assign_ranks (slice_to top_n recommendations);
                 w = logger_info
                       [Txt ''Generated top '', Dec top_n, Txt '' recommendations''] w
             in (Inr ranked, w))"

section \<open>Notions used in the statements\<close>

text \<open>A score lies in the range the engines promise.\<close>

definition in_range :: "real \<Rightarrow> bool" where
  "in_range x = (0 \<le> x \<and> x \<le> 100)"

text \<open>
  \<^verbatim>\<open>calculate_valuation_risk_score\<close> as the specification words it: the average of the
  scores of exactly the supplied ratios, P/E divided by 50, P/B divided by 8, P/S divided
  by 8, each multiplied by 100 and capped at 100, and 50 when no ratio is supplied.
\<close>

definition spec_valuation_risk_score :: "real option \<Rightarrow> real option \<Rightarrow> real option \<Rightarrow> real" where
  "spec_valuation_risk_score pe_ratio price_to_book price_to_sales =
     (let supplied =
            (case pe_ratio of None \<Rightarrow> [] | Some pe \<Rightarrow> [min (pe / 50 * 100) 100]) @
            (case price_to_book of None \<Rightarrow> [] | Some pb \<Rightarrow> [min (pb / 8 * 100) 100]) @
            (case price_to_sales of None \<Rightarrow> [] | Some ps \<Rightarrow> [min (ps / 8 * 100) 100])
      in if supplied = [] then 50 else sum_list supplied / real (length supplied))"

text \<open>A ratio as the valuation score uses it: a ratio that is zero or negative counts as absent.\<close>

definition positive_only :: "real option \<Rightarrow> real option" where
  "positive_only r = (case r of None \<Rightarrow> None | Some x \<Rightarrow> if x > 0 then Some x else None)"

text \<open>
  The only effect of an operation is on the log: the clock is as before and the log has
  grown at its end.
\<close>

definition only_logs :: "world \<Rightarrow> world \<Rightarrow> bool" where
  "only_logs w w' = (clock w' = clock w \<and> take (length (logged w)) (logged w') = logged w)"

text \<open>
  Inputs for the examples: a world in which nothing has been logged, and candidates. The
  first is an entry of \<^verbatim>\<open>mock_stocks\<close> in \<^verbatim>\<open>api/v1/recommendations.py\<close>; \<open>AAA\<close>,
  \<open>BBB\<close>, \<open>CCC\<close> reach the final scores 90, 70, 95 for a Moderate user with volatility
  tolerance 100; \<open>TIE1\<close> and \<open>TIE2\<close> tie at 90 below \<open>TOP\<close> at 95.
\<close>

definition quiet :: world where
  "quiet = \<lparr>clock = 0, logged = []\<rparr>"

definition stock_AAPL :: stock where
  "stock_AAPL =
    \<lparr>stock_ticker = Some ''AAPL'',
     stock_sector = Some ''Technology'', stock_risk_score = Some 55,
     stock_research_score = Some 85, stock_signal_score = Some 75\<rparr>"

definition stock_JNJ :: stock where
  "stock_JNJ =
    \<lparr>stock_ticker = Some ''JNJ'',
     stock_sector = Some ''Healthcare'', stock_risk_score = Some 33.5,
     stock_research_score = Some 80, stock_signal_score = Some 65\<rparr>"

definition stock_NEW :: stock where
  "stock_NEW =
    \<lparr>stock_ticker = Some ''NEW'',
     stock_sector = None, stock_risk_score = None,
     stock_research_score = None, stock_signal_score = None\<rparr>"

definition stock_AAA :: stock where
  "stock_AAA =
    \<lparr>stock_ticker = Some ''AAA'',
     stock_sector = Some ''Technology'', stock_risk_score = Some 50,
     stock_research_score = Some 95, stock_signal_score = Some 90\<rparr>"

definition stock_BBB :: stock where
  "stock_BBB =
    \<lparr>stock_ticker = Some ''BBB'',
     stock_sector = Some ''Energy'', stock_risk_score = Some 40,
     stock_research_score = Some 60, stock_signal_score = Some 70\<rparr>"

definition stock_CCC :: stock where
  "stock_CCC =
    \<lparr>stock_ticker = Some ''CCC'',
     stock_sector = None, stock_risk_score = None,
     stock_research_score = Some 100, stock_signal_score = Some 100\<rparr>"

definition stock_TIE1 :: stock where
  "stock_TIE1 =
    \<lparr>stock_ticker = Some ''TIE1'',
     stock_sector = Some ''Technology'', stock_risk_score = Some 50,
     stock_research_score = Some 95, stock_signal_score = Some 90\<rparr>"

definition stock_TIE2 :: stock where
  "stock_TIE2 =
    \<lparr>stock_ticker = Some ''TIE2'',
     stock_sector = Some ''Utilities'', stock_risk_score = Some 60,
     stock_research_score = Some 95, stock_signal_score = Some 90\<rparr>"

definition stock_TOP :: stock where
  "stock_TOP =
    \<lparr>stock_ticker = Some ''TOP'',
     stock_sector = None, stock_risk_score = None,
     stock_research_score = Some 100, stock_signal_score = Some 100\<rparr>"

lemmas example_defs =
  quiet_def stock_AAPL_def stock_JNJ_def stock_NEW_def stock_AAA_def stock_BBB_def stock_CCC_def stock_TIE1_def stock_TIE2_def stock_TOP_def

section \<open>Classification and band\<close>

text \<open>
  Claim C3. For every real risk score \<open>s\<close>, \<^verbatim>\<open>classify_risk_level(s)\<close> and
  \<^verbatim>\<open>get_risk_band(s)\<close> agree on the same band: \<open>s \<le> 33.33\<close> gives Conservative and
  "0-33", \<open>33.33 < s \<le> 66.67\<close> gives Moderate and "34-66", \<open>s > 66.67\<close> gives Aggressive
  and "67-100"; a level is returned exactly when its band string is. In particular
  33.33 gives Conservative/"0-33" and 33.34 gives Moderate/"34-66".
\<close>

theorem classify_risk_level_agrees_with_get_risk_band:
  "(risk_level_value (classify_risk_level s), get_risk_band s) =
     (if s \<le> 33.33 then (''Conservative'', ''0-33'')
      else if s \<le> 66.67 then (''Moderate'', ''34-66'')
      else (''Aggressive'', ''67-100''))
   \<and> (classify_risk_level s = CONSERVATIVE) = (get_risk_band s = ''0-33'')
   \<and> (classify_risk_level s = MODERATE) = (get_risk_band s = ''34-66'')
   \<and> (classify_risk_level s = AGGRESSIVE) = (get_risk_band s = ''67-100'')
   \<and> classify_risk_level 33.33 = CONSERVATIVE \<and> get_risk_band 33.33 = ''0-33''
   \<and> classify_risk_level 33.34 = MODERATE \<and> get_risk_band 33.34 = ''34-66''"
  by (simp add: classify_risk_level_def get_risk_band_def CONSERVATIVE_THRESHOLD_def
        MODERATE_THRESHOLD_def)

section \<open>Aggregation of signals\<close>

text \<open>
  Claim C4. \<^verbatim>\<open>aggregate_signals\<close> returns exactly 50 on the empty list and whenever the
  total confidence weight, the sum of \<open>confidence / 100\<close>, is zero; on every other list it
  returns the confidence-weighted mean of the strengths, the sum of
  \<open>strength * (confidence / 100)\<close> divided by the total weight, clamped to \<open>[0, 100]\<close>.
\<close>

theorem aggregate_signals_weighted_mean:
  "fst (aggregate_signals [] tk w) = 50
   \<and> fst (aggregate_signals signals tk w) =
       (if signals = [] \<or> (\<Sum>s\<leftarrow>signals. confidence s / 100) = 0 then 50
        else min (max ((\<Sum>s\<leftarrow>signals. strength s * (confidence s / 100)) /
                       (\<Sum>s\<leftarrow>signals. confidence s / 100)) 0) 100)"
  by (simp add: aggregate_signals_def Let_def)

section \<open>Every score lies between 0 and 100\<close>

subsection \<open>Risk engine\<close>

lemma volatility_range: "in_range (calculate_volatility_score hv vp)"
  by (simp add: calculate_volatility_score_def in_range_def Let_def split: option.split)

lemma beta_range: "in_range (calculate_beta_score b)"
  by (simp add: calculate_beta_score_def in_range_def Let_def)

lemma leverage_range: "in_range (calculate_leverage_score de ic)"
  by (simp add: calculate_leverage_score_def in_range_def Let_def split: option.split)

lemma earnings_range: "in_range (calculate_earnings_stability_score ev q)"
  by (simp add: calculate_earnings_stability_score_def in_range_def Let_def)

lemma sector_range: "in_range (calculate_sector_risk_score sec)"
proof (cases "map_of SECTOR_RISK_MAP sec")
  case None
  then show ?thesis by (simp add: calculate_sector_risk_score_def dict_get_def in_range_def)
next
  case (Some v)
  then have "(sec, v) \<in> set SECTOR_RISK_MAP" by (rule map_of_SomeD)
  then have "in_range v" by (auto simp: SECTOR_RISK_MAP_def in_range_def)
  with Some show ?thesis by (simp add: calculate_sector_risk_score_def dict_get_def)
qed

lemma sum_list_bounds:
  "\<forall>x \<in> set xs. in_range x \<Longrightarrow> 0 \<le> sum_list xs \<and> sum_list xs \<le> 100 * real (length xs)"
  by (induction xs) (auto simp: in_range_def)

lemma mean_in_range:
  assumes "xs \<noteq> []" and "\<forall>x \<in> set xs. in_range x"
  shows "in_range (sum_list xs / real (length xs))"
proof -
  have "0 < real (length xs)" using assms(1) by simp
  with sum_list_bounds[OF assms(2)] show ?thesis
    by (simp add: in_range_def field_simps)
qed

lemma valuation_scores_range: "\<forall>x \<in> set (valuation_scores pe pb ps). in_range x"
  by (auto simp: valuation_scores_def in_range_def Let_def split: option.splits)

lemma valuation_range: "in_range (calculate_valuation_risk_score pe pb ps)"
  using mean_in_range[OF _ valuation_scores_range, of pe pb ps]
  by (auto simp: calculate_valuation_risk_score_def Let_def in_range_def)

lemma overall_range: "in_range (calculate_overall_risk c)"
  by (simp add: calculate_overall_risk_def in_range_def Let_def)

lemma alignment_range: "in_range (calculate_risk_alignment_score s lvl tol)"
  by (simp add: calculate_risk_alignment_score_def in_range_def Let_def split: prod.split)

lemma final_range: "in_range (calculate_final_score a b c d)"
  by (simp add: calculate_final_score_def in_range_def Let_def)

lemma aggregate_range: "in_range (fst (aggregate_signals sigs tk w))"
  by (simp add: aggregate_signals_def in_range_def Let_def)

subsection \<open>Signal engine\<close>

lemma earnings_surprise_range:
  "fst (detect_earnings_surprise tk a e ts w) = Some s \<Longrightarrow>
     in_range (strength s) \<and> in_range (confidence s)"
  by (auto simp: detect_earnings_surprise_def Let_def in_range_def split: if_splits)

lemma institutional_range:
  "fst (detect_institutional_buying tk ch n ts w) = Some s \<Longrightarrow>
     in_range (strength s) \<and> in_range (confidence s)"
  by (auto simp: detect_institutional_buying_def Let_def in_range_def split: if_splits)

lemma insider_range:
  "fst (detect_insider_buying tk b sl n ts w) = Some s \<Longrightarrow>
     in_range (strength s) \<and> in_range (confidence s)"
  by (auto simp: detect_insider_buying_def Let_def in_range_def split: if_splits)

lemma sentiment_range:
  "fst (detect_sentiment_spike tk c b n ts w) = Some s \<Longrightarrow>
     in_range (strength s) \<and> in_range (confidence s)"
  by (auto simp: detect_sentiment_spike_def Let_def in_range_def split: if_splits)

subsection \<open>Recommendation engine\<close>

lemma table_lookup_range:
  assumes "\<forall>(k, v) \<in> set t. in_range v"
  shows "in_range (dict_get (map_of t) sec 50)"
proof (cases "map_of t sec")
  case None
  then show ?thesis by (simp add: dict_get_def in_range_def)
next
  case (Some v)
  then have "(sec, v) \<in> set t" by (rule map_of_SomeD)
  with assms have "in_range v" by auto
  with Some show ?thesis by (simp add: dict_get_def)
qed

lemma sector_scores_tables_range:
  "(r, t) \<in> set sector_scores \<Longrightarrow> \<forall>(k, v) \<in> set t. in_range v"
  by (auto simp: sector_scores_def in_range_def)

lemma neutral_table: "map_of sector_scores ''neutral'' = Some (snd (sector_scores ! 2))"
  by (simp add: sector_scores_def)

lemma macro_fit_range: "in_range (calculate_macro_fit_score sec regime)"
proof -
  have "(''neutral'', snd (sector_scores ! 2)) \<in> set sector_scores"
    by (simp add: sector_scores_def)
  then have n: "\<forall>(k, v) \<in> set (snd (sector_scores ! 2)). in_range v"
    by (rule sector_scores_tables_range)
  show ?thesis
  proof (cases "map_of sector_scores regime")
    case None
    then show ?thesis
      using table_lookup_range[OF n]
      by (simp add: calculate_macro_fit_score_def Let_def dict_get_def neutral_table)
  next
    case (Some t)
    then have "(regime, t) \<in> set sector_scores" by (rule map_of_SomeD)
    then have "\<forall>(k, v) \<in> set t. in_range v" by (rule sector_scores_tables_range)
    from table_lookup_range[OF this] Some show ?thesis
      by (simp add: calculate_macro_fit_score_def Let_def dict_get_def)
  qed
qed

lemma build_recommendations_acc:
  "build_recommendations stocks lvl tol acc = Inr recs \<Longrightarrow>
     \<exists>rs. recs = acc @ rs \<and> map (\<lambda>s. recommendation_for s lvl tol) stocks = map Inr rs"
proof (induction stocks arbitrary: acc)
  case Nil
  then show ?case by simp
next
  case (Cons s rest)
  from Cons.prems obtain r where r: "recommendation_for s lvl tol = Inr r"
    and b: "build_recommendations rest lvl tol (acc @ [r]) = Inr recs"
    by (auto split: sum.splits)
  from Cons.IH[OF b] obtain rs where "recs = (acc @ [r]) @ rs"
    and "map (\<lambda>s. recommendation_for s lvl tol) rest = map Inr rs" by blast
  with r show ?case by (intro exI[of _ "r # rs"]) simp
qed

lemma build_recommendations_total:
  "map (\<lambda>s. recommendation_for s lvl tol) stocks = map Inr rs \<Longrightarrow>
     build_recommendations stocks lvl tol acc = Inr (acc @ rs)"
proof (induction stocks arbitrary: acc rs)
  case Nil
  then show ?case by simp
next
  case (Cons s rest)
  then obtain r rs' where "rs = r # rs'" by (cases rs) auto
  with Cons show ?case by simp
qed

lemma neutral_lookup_50:
  "dict_get (map_of (snd (sector_scores ! 2))) sec 50 = 50"
proof (cases "map_of (snd (sector_scores ! 2)) sec")
  case None
  then show ?thesis by (simp add: dict_get_def)
next
  case (Some v)
  then have "(sec, v) \<in> set (snd (sector_scores ! 2))" by (rule map_of_SomeD)
  then have "v = 50" by (auto simp: sector_scores_def)
  with Some show ?thesis by (simp add: dict_get_def)
qed

lemma macro_fit_neutral: "calculate_macro_fit_score sec default_market_regime = 50"
  using neutral_lookup_50 [of sec]
  by (simp add: calculate_macro_fit_score_def default_market_regime_def Let_def neutral_table
        dict_get_def)

lemma recommendation_for_scores:
  assumes "recommendation_for s lvl tol = Inr r"
  shows "macro_fit_score (scores r) = 50"
    and "risk_alignment_score (scores r) =
           calculate_risk_alignment_score (get_or (stock_risk_score s) 50) lvl tol"
    and "research_score (scores r) = get_or (stock_research_score s) 50"
    and "signal_score (scores r) = get_or (stock_signal_score s) 50"
    and "final_score (scores r) =
           calculate_final_score (research_score (scores r)) (signal_score (scores r))
             (risk_alignment_score (scores r)) (macro_fit_score (scores r))"
    and "rank r = 0"
    and "stock_ticker s = Some (ticker r)"
  using assms
  by (auto simp: recommendation_for_def Let_def subscript_def macro_fit_neutral
        split: option.splits)

lemma set_slice_to: "set (slice_to n xs) \<subseteq> set xs"
  by (auto simp: slice_to_def dest: in_set_takeD)

lemma set_sort_reverse: "set (sort_reverse f xs) = set xs"
  by (simp add: sort_reverse_def)

lemma length_assign_ranks: "length (assign_ranks xs) = length xs"
  by (simp add: assign_ranks_def)

lemma map_snd_enumerate_fun:
  "map (\<lambda>(i, r). g r) (List.enumerate n xs) = map g xs"
  by (induction xs arbitrary: n) simp_all

lemma map_fst_enumerate_fun:
  "map (\<lambda>(i, r). h i) (List.enumerate n xs) = map h [n..<n + length xs]"
proof -
  have "map (\<lambda>(i, r). h i) (List.enumerate n xs) = map h (map fst (List.enumerate n xs))"
    by (simp only: map_map o_def case_prod_unfold)
  then show ?thesis by (simp only: map_fst_enumerate)
qed

lemma map_unranked_assign_ranks:
  "map (\<lambda>r. g (r\<lparr>rank := 0\<rparr>)) (assign_ranks xs) = map (\<lambda>r. g (r\<lparr>rank := 0\<rparr>)) xs"
  using map_snd_enumerate_fun [of "\<lambda>r. g (r\<lparr>rank := 0\<rparr>)" 1 xs]
  by (simp add: assign_ranks_def case_prod_unfold o_def)

lemma map_scores_assign_ranks: "map scores (assign_ranks xs) = map scores xs"
  using map_unranked_assign_ranks [of scores xs] by simp

lemma map_rank_assign_ranks: "map rank (assign_ranks xs) = map int [1..<1 + length xs]"
  using map_fst_enumerate_fun [of int 1 xs]
  by (simp add: assign_ranks_def case_prod_unfold o_def del: upt_Suc)

lemma build_recommendations_sources:
  assumes "build_recommendations stocks lvl tol [] = Inr recs"
  shows "\<forall>r \<in> set recs. \<exists>s \<in> set stocks. recommendation_for s lvl tol = Inr r"
proof
  fix r assume r: "r \<in> set recs"
  from build_recommendations_acc[OF assms] obtain rs where
    "recs = rs" and m: "map (\<lambda>s. recommendation_for s lvl tol) stocks = map Inr rs" by auto
  with r have "Inr r \<in> set (map Inr rs)" by simp
  with m have "Inr r \<in> set (map (\<lambda>s. recommendation_for s lvl tol) stocks)" by simp
  then show "\<exists>s \<in> set stocks. recommendation_for s lvl tol = Inr r" by auto
qed

lemma rank_recommendations_Inr:
  assumes "fst (rank_recommendations stocks lvl tol top_n w) = Inr out"
  shows "\<exists>recs. build_recommendations stocks lvl tol [] = Inr recs \<and>
           out = assign_ranks (slice_to top_n (sort_reverse (\<lambda>x. final_score (scores x)) recs))"
  using assms by (auto simp: rank_recommendations_def Let_def split: sum.splits)

lemma rank_recommendations_scores_sources:
  assumes "fst (rank_recommendations stocks lvl tol top_n w) = Inr out" and "r \<in> set out"
  shows "\<exists>s \<in> set stocks. \<exists>r0. recommendation_for s lvl tol = Inr r0 \<and> scores r = scores r0"
proof -
  from rank_recommendations_Inr[OF assms(1)] obtain recs where
    b: "build_recommendations stocks lvl tol [] = Inr recs" and
    out: "out = assign_ranks (slice_to top_n (sort_reverse (\<lambda>x. final_score (scores x)) recs))"
    by blast
  from assms(2) have "scores r \<in> set (map scores out)" by simp
  then have "scores r \<in> set (map scores (slice_to top_n (sort_reverse (\<lambda>x. final_score (scores x)) recs)))"
    by (simp only: out map_scores_assign_ranks)
  then obtain r0 where "r0 \<in> set (slice_to top_n (sort_reverse (\<lambda>x. final_score (scores x)) recs))"
    and e: "scores r = scores r0" by auto
  then have "r0 \<in> set recs" using set_slice_to set_sort_reverse by fastforce
  with build_recommendations_sources[OF b] e show ?thesis by blast
qed

lemma rank_recommendations_range:
  assumes "fst (rank_recommendations stocks lvl tol top_n w) = Inr out" and "r \<in> set out"
  shows "in_range (risk_alignment_score (scores r)) \<and> in_range (macro_fit_score (scores r)) \<and>
         in_range (final_score (scores r))"
proof -
  from rank_recommendations_scores_sources[OF assms] obtain s r0 where
    r0: "recommendation_for s lvl tol = Inr r0" and e: "scores r = scores r0" by blast
  have "in_range (risk_alignment_score (scores r0))"
    by (simp only: recommendation_for_scores(2)[OF r0] alignment_range)
  moreover have "in_range (macro_fit_score (scores r0))"
    by (simp add: recommendation_for_scores(1)[OF r0] in_range_def)
  moreover have "in_range (final_score (scores r0))"
    using recommendation_for_scores(5)[OF r0] final_range by simp
  ultimately show ?thesis by (simp add: e)
qed

lemma analyze_components:
  "components (fst (analyze_stock_risk tk hv b de ev q sec vp ic pe pb ps w)) =
     \<lparr>volatility_score = calculate_volatility_score hv vp,
      beta_score = calculate_beta_score b,
      leverage_score = calculate_leverage_score de ic,
      earnings_stability_score = calculate_earnings_stability_score ev q,
      sector_risk_score = calculate_sector_risk_score sec,
      valuation_risk_score = calculate_valuation_risk_score pe pb ps\<rparr>"
  and analyze_overall:
  "overall_risk_score (fst (analyze_stock_risk tk hv b de ev q sec vp ic pe pb ps w)) =
     calculate_overall_risk (components (fst (analyze_stock_risk tk hv b de ev q sec vp ic pe pb ps w)))"
  by (simp_all add: analyze_stock_risk_def Let_def)

text \<open>
  Claim C1. Every score the three engines produce lies in \<open>[0, 100]\<close>: the six risk
  component scores and the overall risk score (each function on its own, and the fields
  of the analysis \<^verbatim>\<open>analyze_stock_risk\<close> returns), the strength and confidence of every
  signal a detector emits, the aggregated signal score, the risk-alignment score, the
  macro-fit score, the final score, and the three computed scores of every recommendation
  \<^verbatim>\<open>rank_recommendations\<close> returns. It holds for all real inputs, so in particular for
  the valid ones.
\<close>

theorem all_scores_in_range:
  "in_range (calculate_volatility_score hv vp)
   \<and> in_range (calculate_beta_score b)
   \<and> in_range (calculate_leverage_score de ic)
   \<and> in_range (calculate_earnings_stability_score ev q)
   \<and> in_range (calculate_sector_risk_score sec)
   \<and> in_range (calculate_valuation_risk_score pe pb ps)
   \<and> in_range (calculate_overall_risk c)
   \<and> (let a = fst (analyze_stock_risk tk hv b de ev q sec vp ic pe pb ps w)
      in in_range (volatility_score (components a))
         \<and> in_range (beta_score (components a))
         \<and> in_range (leverage_score (components a))
         \<and> in_range (earnings_stability_score (components a))
         \<and> in_range (sector_risk_score (components a))
         \<and> in_range (valuation_risk_score (components a))
         \<and> in_range (overall_risk_score a))
   \<and> (\<forall>s. fst (detect_earnings_surprise tk actual_eps estimated_eps ts w) = Some s \<longrightarrow>
          in_range (strength s) \<and> in_range (confidence s))
   \<and> (\<forall>s. fst (detect_institutional_buying tk ownership_change num_institutions ts w) = Some s \<longrightarrow>
          in_range (strength s) \<and> in_range (confidence s))
   \<and> (\<forall>s. fst (detect_insider_buying tk buy_volume sell_volume num_insiders ts w) = Some s \<longrightarrow>
          in_range (strength s) \<and> in_range (confidence s))
   \<and> (\<forall>s. fst (detect_sentiment_spike tk current baseline mentions ts w) = Some s \<longrightarrow>
          in_range (strength s) \<and> in_range (confidence s))
   \<and> in_range (fst (aggregate_signals signals tk w))
   \<and> in_range (calculate_risk_alignment_score stock_risk lvl tol)
   \<and> in_range (calculate_macro_fit_score sec regime)
   \<and> in_range (calculate_final_score research sgnl alignment macro)
   \<and> (\<forall>out. fst (rank_recommendations stocks lvl tol top_n w) = Inr out \<longrightarrow>
          (\<forall>r \<in> set out. in_range (risk_alignment_score (scores r))
                        \<and> in_range (macro_fit_score (scores r))
                        \<and> in_range (final_score (scores r))))"
proof -
  have risk: "in_range (calculate_volatility_score hv vp)"
      "in_range (calculate_beta_score b)"
      "in_range (calculate_leverage_score de ic)"
      "in_range (calculate_earnings_stability_score ev q)"
      "in_range (calculate_sector_risk_score sec)"
      "in_range (calculate_valuation_risk_score pe pb ps)"
      "\<And>c. in_range (calculate_overall_risk c)"
    by (rule volatility_range beta_range leverage_range earnings_range sector_range
          valuation_range overall_range)+
  have analysis: "let a = fst (analyze_stock_risk tk hv b de ev q sec vp ic pe pb ps w)
      in in_range (volatility_score (components a))
         \<and> in_range (beta_score (components a))
         \<and> in_range (leverage_score (components a))
         \<and> in_range (earnings_stability_score (components a))
         \<and> in_range (sector_risk_score (components a))
         \<and> in_range (valuation_risk_score (components a))
         \<and> in_range (overall_risk_score a)"
    unfolding Let_def analyze_overall unfolding analyze_components
    using risk by simp
  have detectors:
      "\<forall>s. fst (detect_earnings_surprise tk actual_eps estimated_eps ts w) = Some s \<longrightarrow>
          in_range (strength s) \<and> in_range (confidence s)"
      "\<forall>s. fst (detect_institutional_buying tk ownership_change num_institutions ts w) = Some s \<longrightarrow>
          in_range (strength s) \<and> in_range (confidence s)"
      "\<forall>s. fst (detect_insider_buying tk buy_volume sell_volume num_insiders ts w) = Some s \<longrightarrow>
          in_range (strength s) \<and> in_range (confidence s)"
      "\<forall>s. fst (detect_sentiment_spike tk current baseline mentions ts w) = Some s \<longrightarrow>
          in_range (strength s) \<and> in_range (confidence s)"
    by (intro allI impI earnings_surprise_range, assumption)
       (intro allI impI institutional_range, assumption,
        intro allI impI insider_range, assumption,
        intro allI impI sentiment_range, assumption)
  have recs: "\<forall>out. fst (rank_recommendations stocks lvl tol top_n w) = Inr out \<longrightarrow>
          (\<forall>r \<in> set out. in_range (risk_alignment_score (scores r))
                        \<and> in_range (macro_fit_score (scores r))
                        \<and> in_range (final_score (scores r)))"
    by (intro allI impI ballI rank_recommendations_range)
  show ?thesis
    by (intro conjI risk analysis detectors recs aggregate_range alignment_range
          macro_fit_range final_range)
qed

theorem all_scores_in_range_witness:
  "(\<exists>s. fst (detect_earnings_surprise ''AAPL'' 1.15 1.00 None quiet) = Some s
        \<and> in_range (strength s) \<and> in_range (confidence s))
   \<and> (\<exists>s. fst (detect_institutional_buying ''AAPL'' 3.5 4 None quiet) = Some s
        \<and> in_range (strength s) \<and> in_range (confidence s))
   \<and> (\<exists>s. fst (detect_insider_buying ''AAPL'' 500000 100000 3 None quiet) = Some s
        \<and> in_range (strength s) \<and> in_range (confidence s))
   \<and> (\<exists>s. fst (detect_sentiment_spike ''AAPL'' 0.6 0.1 250 None quiet) = Some s
        \<and> in_range (strength s) \<and> in_range (confidence s))
   \<and> (\<exists>r. fst (rank_recommendations [stock_AAPL] ''Moderate'' 60 10 quiet) = Inr [r]
        \<and> in_range (risk_alignment_score (scores r))
        \<and> in_range (macro_fit_score (scores r))
        \<and> in_range (final_score (scores r)))"
proof -
  note T = all_scores_in_range
    [where tk = "''AAPL''" and ts = None and w = "quiet"
       and actual_eps = "1.15" and estimated_eps = "1.00"
       and ownership_change = "3.5" and num_institutions = 4
       and buy_volume = 500000 and sell_volume = 100000 and num_insiders = 3
       and current = "0.6" and baseline = "0.1" and mentions = 250
       and stocks = "[stock_AAPL]"
       and lvl = "''Moderate''" and tol = 60 and top_n = 10
       and hv = "0.25" and vp = None and b = "1.2" and de = "0.5" and ic = None
       and ev = "0.15" and q = 8 and sec = "''Technology''" and pe = "Some 25"
       and pb = "Some 3.5" and ps = None and signals = "[]" and stock_risk = 55
       and regime = "''neutral''" and research = 85 and sgnl = 75 and alignment = 88
       and macro = 50
       and c = "\<lparr>volatility_score = 50, beta_score = 60, leverage_score = 50 / 3,
                 earnings_stability_score = 0, sector_risk_score = 65,
                 valuation_risk_score = 46.875\<rparr>"]
  have e1: "\<exists>s. fst (detect_earnings_surprise ''AAPL'' 1.15 1.00 None quiet) = Some s"
    by (simp add: detect_earnings_surprise_def Let_def)
  have e2: "\<exists>s. fst (detect_institutional_buying ''AAPL'' 3.5 4 None quiet) = Some s"
    by (simp add: detect_institutional_buying_def Let_def)
  have e3: "\<exists>s. fst (detect_insider_buying ''AAPL'' 500000 100000 3 None quiet) = Some s"
    by (simp add: detect_insider_buying_def Let_def)
  have e4: "\<exists>s. fst (detect_sentiment_spike ''AAPL'' 0.6 0.1 250 None quiet) = Some s"
    by (simp add: detect_sentiment_spike_def Let_def)
  have e5: "\<exists>r. fst (rank_recommendations [stock_AAPL] ''Moderate'' 60 10 quiet) = Inr [r]"
    by (simp add: rank_recommendations_def Let_def recommendation_for_def subscript_def
          sort_reverse_def slice_to_def assign_ranks_def example_defs)
  from e1 T have c1: "\<exists>s. fst (detect_earnings_surprise ''AAPL'' 1.15 1.00 None quiet) = Some s
        \<and> in_range (strength s) \<and> in_range (confidence s)" by blast
  from e2 T have c2: "\<exists>s. fst (detect_institutional_buying ''AAPL'' 3.5 4 None quiet) = Some s
        \<and> in_range (strength s) \<and> in_range (confidence s)" by blast
  from e3 T have c3: "\<exists>s. fst (detect_insider_buying ''AAPL'' 500000 100000 3 None quiet) = Some s
        \<and> in_range (strength s) \<and> in_range (confidence s)" by blast
  from e4 T have c4: "\<exists>s. fst (detect_sentiment_spike ''AAPL'' 0.6 0.1 250 None quiet) = Some s
        \<and> in_range (strength s) \<and> in_range (confidence s)" by blast
  from e5 obtain r where r: "fst (rank_recommendations [stock_AAPL] ''Moderate'' 60 10 quiet) = Inr [r]" by blast
  with T have "\<forall>x \<in> set [r]. in_range (risk_alignment_score (scores x))
        \<and> in_range (macro_fit_score (scores x))
        \<and> in_range (final_score (scores x))" by blast
  with r have c5: "\<exists>r. fst (rank_recommendations [stock_AAPL] ''Moderate'' 60 10 quiet) = Inr [r]
        \<and> in_range (risk_alignment_score (scores r))
        \<and> in_range (macro_fit_score (scores r))
        \<and> in_range (final_score (scores r))" by auto
  from c1 c2 c3 c4 c5 show ?thesis by (intro conjI)
qed

section \<open>Earnings surprise\<close>

text \<open>
  Claim C7. \<^verbatim>\<open>detect_earnings_surprise\<close> returns no signal when \<^verbatim>\<open>estimated_eps\<close> is 0
  and when the absolute surprise percentage is below 5, where the surprise percentage is
  \<open>(actual - estimate) / |estimate| * 100\<close>; otherwise it returns a signal whose strength
  is \<open>min (|surprise| * 2) 100\<close> and whose confidence is exactly 95. In particular
  \<^verbatim>\<open>actual_eps = 1.15\<close>, \<^verbatim>\<open>estimated_eps = 1.00\<close> gives a surprise of 15 (recorded in the
  metadata), confidence 95 and strength 30.
\<close>

theorem detect_earnings_surprise_strength_confidence:
  "map_option (\<lambda>s. (strength s, confidence s))
     (fst (detect_earnings_surprise tk actual_eps estimated_eps ts w)) =
     (let surprise_pct = (actual_eps - estimated_eps) / \<bar>estimated_eps\<bar> * 100
      in if estimated_eps = 0 \<or> \<bar>surprise_pct\<bar> < 5 then None
         else Some (min (\<bar>surprise_pct\<bar> * 2) 100, 95))
   \<and> map_option (\<lambda>s. (map_of (metadata s) ''surprise_pct'', strength s, confidence s))
        (fst (detect_earnings_surprise tk 1.15 1.00 ts w)) = Some (Some (MFloat 15), 30, 95)"
  by (simp add: detect_earnings_surprise_def Let_def)

section \<open>Valuation risk\<close>

text \<open>
  The claim C8 as stated, that the result is the average over exactly the supplied
  ratios, fails when a supplied ratio is not positive: with a P/E of -10 and a P/B of 4
  the code skips the P/E and returns the P/B score 50, where the average over both
  supplied ratios is 15.
\<close>

theorem valuation_nonpositive_ratio_counterexample:
  "calculate_valuation_risk_score (Some (-10)) (Some 4) None = 50
   \<and> spec_valuation_risk_score (Some (-10)) (Some 4) None = 15"
  by (simp add: calculate_valuation_risk_score_def valuation_scores_def
        spec_valuation_risk_score_def Let_def)

text \<open>
  Claim C8, amended. For every call, the result is the average of the scores of exactly the
  supplied ratios that are strictly positive (P/E divided by 50, P/B divided by 8, P/S
  divided by 8, each multiplied by 100 and capped at 100), and 50 when no supplied ratio is
  strictly positive: a ratio that is zero or negative is left out as if it had not been
  supplied.
\<close>

theorem valuation_averages_positive_ratios:
  "calculate_valuation_risk_score pe pb ps =
     spec_valuation_risk_score (positive_only pe) (positive_only pb) (positive_only ps)
   \<and> calculate_valuation_risk_score None None None = 50"
  by (simp add: calculate_valuation_risk_score_def valuation_scores_def
        spec_valuation_risk_score_def Let_def positive_only_def split: option.split)

section \<open>Risk bands of the recommendation engine\<close>

lemma risk_bands_lookup:
  "dict_get (map_of risk_bands) ''Conservative'' (0, 100) = (0, 33)"
  "dict_get (map_of risk_bands) ''Moderate'' (0, 100) = (34, 66)"
  "dict_get (map_of risk_bands) ''Aggressive'' (0, 100) = (67, 100)"
  "lvl \<noteq> ''Conservative'' \<Longrightarrow> lvl \<noteq> ''Moderate'' \<Longrightarrow> lvl \<noteq> ''Aggressive'' \<Longrightarrow>
     dict_get (map_of risk_bands) lvl (0, 100) = (0, 100)"
  by (simp_all add: risk_bands_def dict_get_def)

lemma filter_by_risk_band_eq:
  "fst (filter_by_risk_band stocks lvl w) =
     filter (\<lambda>c. real_of_int (fst (dict_get (map_of risk_bands) lvl (0, 100)))
                   \<le> get_or (stock_risk_score c) 50 \<and>
                 get_or (stock_risk_score c) 50
                   \<le> real_of_int (snd (dict_get (map_of risk_bands) lvl (0, 100)))) stocks"
  by (simp add: filter_by_risk_band_def Let_def case_prod_unfold)

text \<open>
  Claim C6. For every candidate list, \<^verbatim>\<open>filter_by_risk_band\<close> with the level "Moderate"
  retains exactly the candidates whose risk score lies in \<open>[34, 66]\<close> inclusive, in their
  order, and drops all others; and for every unrecognized level the full band 0 to 100
  applies, so that all candidates are retained: no candidate is filtered out, the risk
  scores lying in their documented range 0 to 100. A candidate that carries no risk score
  is read with the default 50 of \<^verbatim>\<open>stock.get("risk_score", 50)\<close>.
\<close>

theorem filter_by_risk_band_moderate_and_unrecognized:
  "fst (filter_by_risk_band stocks ''Moderate'' w) =
     filter (\<lambda>c. 34 \<le> get_or (stock_risk_score c) 50 \<and> get_or (stock_risk_score c) 50 \<le> 66)
       stocks
   \<and> (lvl \<noteq> ''Conservative'' \<and> lvl \<noteq> ''Moderate'' \<and> lvl \<noteq> ''Aggressive''
        \<and> (\<forall>c \<in> set stocks. in_range (get_or (stock_risk_score c) 50)) \<longrightarrow>
          fst (filter_by_risk_band stocks lvl w) = stocks)"
  by (simp add: filter_by_risk_band_eq risk_bands_lookup in_range_def)

theorem filter_by_risk_band_moderate_and_unrecognized_witness:
  "''Balanced'' \<noteq> ''Conservative'' \<and> ''Balanced'' \<noteq> ''Moderate'' \<and> ''Balanced'' \<noteq> ''Aggressive''
   \<and> list_all (\<lambda>c. in_range (get_or (stock_risk_score c) 50)) [stock_AAPL, stock_JNJ, stock_NEW]
   \<and> fst (filter_by_risk_band [stock_AAPL, stock_JNJ, stock_NEW] ''Balanced'' quiet) = [stock_AAPL, stock_JNJ, stock_NEW]
   \<and> fst (filter_by_risk_band [stock_AAPL, stock_JNJ, stock_NEW] ''Moderate'' quiet) = [stock_AAPL, stock_NEW]"
  using filter_by_risk_band_moderate_and_unrecognized
    [where lvl = "''Balanced''" and w = "quiet"
       and stocks = "[stock_AAPL, stock_JNJ, stock_NEW]"]
  by (simp add: get_or_def in_range_def example_defs)

text \<open>
  Claim C10. A candidate whose risk score lies strictly between 33 and 34, or strictly
  between 66 and 67, is excluded by \<^verbatim>\<open>filter_by_risk_band\<close> for each of the three
  recognized levels Conservative, Moderate and Aggressive, from any candidate list, although
  \<^verbatim>\<open>classify_risk_level\<close> assigns the score a level and \<^verbatim>\<open>get_risk_band\<close> gives that level's
  band string: the integer bands \<open>(0, 33)\<close>, \<open>(34, 66)\<close>, \<open>(67, 100)\<close> of the filter leave
  the gaps uncovered, while the classifier splits at 33.33 and 66.67. The score 33.5 is
  Moderate with band "34-66".
\<close>

theorem filter_by_risk_band_gaps:
  "(33 < s \<and> s < 34 \<or> 66 < s \<and> s < 67) \<and> stock_risk_score c = Some s \<longrightarrow>
     c \<notin> set (fst (filter_by_risk_band stocks ''Conservative'' w))
     \<and> c \<notin> set (fst (filter_by_risk_band stocks ''Moderate'' w))
     \<and> c \<notin> set (fst (filter_by_risk_band stocks ''Aggressive'' w))
     \<and> fst (filter_by_risk_band [c] ''Conservative'' w) = []
     \<and> fst (filter_by_risk_band [c] ''Moderate'' w) = []
     \<and> fst (filter_by_risk_band [c] ''Aggressive'' w) = []
     \<and> get_risk_band s =
         (case classify_risk_level s of
            CONSERVATIVE \<Rightarrow> ''0-33'' | MODERATE \<Rightarrow> ''34-66'' | AGGRESSIVE \<Rightarrow> ''67-100'')
     \<and> classify_risk_level 33.5 = MODERATE \<and> get_risk_band 33.5 = ''34-66''"
  by (simp add: filter_by_risk_band_eq risk_bands_lookup get_or_def classify_risk_level_def
        get_risk_band_def CONSERVATIVE_THRESHOLD_def MODERATE_THRESHOLD_def)

theorem filter_by_risk_band_gaps_witness:
  "(33 < (33.5::real) \<and> (33.5::real) < 34)
   \<and> stock_risk_score
        stock_JNJ = Some 33.5
   \<and> fst (filter_by_risk_band [stock_JNJ] ''Conservative'' quiet) = []
   \<and> fst (filter_by_risk_band [stock_JNJ] ''Moderate'' quiet) = []
   \<and> fst (filter_by_risk_band [stock_JNJ] ''Aggressive'' quiet) = []
   \<and> classify_risk_level 33.5 = MODERATE \<and> get_risk_band 33.5 = ''34-66''"
  using filter_by_risk_band_gaps
    [where s = "33.5" and w = "quiet" and stocks = "[]"
       and c = "stock_JNJ"]
  by (simp add: example_defs)

section \<open>Ranking\<close>

lemma mset_sort_reverse: "mset (sort_reverse f xs) = mset xs"
  by (simp add: sort_reverse_def)

lemma length_sort_reverse: "length (sort_reverse f xs) = length xs"
  by (simp add: sort_reverse_def)

lemma sorted_sort_reverse: "sorted_wrt (\<lambda>a b. f a \<ge> f b) (sort_reverse f xs)"
proof -
  have "sorted (map (\<lambda>x. - f x) (sort_reverse f xs))"
    by (simp add: sort_reverse_def)
  then show ?thesis by (simp add: sorted_wrt_map)
qed

lemma stable_sort_reverse:
  "filter (\<lambda>y. f y = k) (sort_reverse f xs) = filter (\<lambda>y. f y = k) xs"
  using sort_key_stable [of "\<lambda>x. - f x" "- k" xs] by (simp add: sort_reverse_def)

lemma recommendation_for_total:
  "stock_ticker s \<noteq> None \<Longrightarrow> \<exists>r. recommendation_for s lvl tol = Inr r"
  by (auto simp: recommendation_for_def Let_def subscript_def)

lemma recommendations_exist:
  "\<forall>s \<in> set stocks. stock_ticker s \<noteq> None \<Longrightarrow>
     \<exists>rs. map (\<lambda>s. recommendation_for s lvl tol) stocks = map Inr rs"
proof (induction stocks)
  case Nil
  then show ?case by simp
next
  case (Cons s rest)
  then obtain rs where rs: "map (\<lambda>s. recommendation_for s lvl tol) rest = map Inr rs" by auto
  from Cons.prems recommendation_for_total obtain r where "recommendation_for s lvl tol = Inr r"
    by fastforce
  with rs have "map (\<lambda>s. recommendation_for s lvl tol) (s # rest) = map Inr (r # rs)" by simp
  then show ?case by blast
qed

lemma unranked_recommendations:
  assumes "map (\<lambda>s. recommendation_for s lvl tol) stocks = map Inr rs"
  shows "\<forall>r \<in> set rs. rank r = 0"
proof
  fix r assume "r \<in> set rs"
  then have "Inr r \<in> set (map (\<lambda>s. recommendation_for s lvl tol) stocks)"
    by (simp add: assms)
  then obtain s where "recommendation_for s lvl tol = Inr r" by auto
  then show "rank r = 0" by (rule recommendation_for_scores(6))
qed

lemma rank_reset_id: "\<forall>r \<in> set xs. rank r = 0 \<Longrightarrow> map (\<lambda>r. r\<lparr>rank := 0\<rparr>) xs = xs"
  by (induction xs) simp_all

lemma rank_recommendations_returns:
  assumes "map (\<lambda>s. recommendation_for s lvl tol) stocks = map Inr rs"
  shows "fst (rank_recommendations stocks lvl tol top_n w) =
           Inr (assign_ranks (slice_to top_n (sort_reverse (\<lambda>x. final_score (scores x)) rs)))"
  using build_recommendations_total[OF assms, of "[]"]
  by (simp add: rank_recommendations_def Let_def)

lemma take_slice: "0 \<le> n \<Longrightarrow> slice_to n xs = take (nat n) xs"
  by (simp add: slice_to_def)

lemma ranking_of_90_70_95:
  "\<exists>out. fst (rank_recommendations [stock_AAA, stock_BBB, stock_CCC] ''Moderate'' 100 2 w) = Inr out \<and>
   map (\<lambda>r. (rank r, ticker r, final_score (scores r))) out =
     [(1, ''CCC'', 95), (2, ''AAA'', 90)]"
  by (simp add: rank_recommendations_def Let_def recommendation_for_def subscript_def
        sort_reverse_def slice_to_def assign_ranks_def calculate_final_score_def
        calculate_risk_alignment_score_def macro_fit_neutral get_or_def rec_weight_def
        REC_WEIGHTS_def risk_bands_def dict_get_def example_defs)

lemma rank_recommendations_sorted_top:
  assumes tick: "\<forall>s \<in> set stocks. stock_ticker s \<noteq> None"
  shows "\<exists>recs srt out.
       map Inr recs = map (\<lambda>s. recommendation_for s lvl tol) stocks
     \<and> mset srt = mset recs
     \<and> sorted_wrt (\<lambda>a b. final_score (scores a) \<ge> final_score (scores b)) srt
     \<and> (\<forall>k. filter (\<lambda>r. final_score (scores r) = k) srt =
              filter (\<lambda>r. final_score (scores r) = k) recs)
     \<and> fst (rank_recommendations stocks lvl tol top_n w) = Inr out
     \<and> map rank out = map int [1..<1 + length out]
     \<and> map (\<lambda>r. r\<lparr>rank := 0\<rparr>) out = slice_to top_n srt
     \<and> (0 \<le> top_n \<longrightarrow>
          map (\<lambda>r. r\<lparr>rank := 0\<rparr>) out = take (nat top_n) srt
        \<and> length out = min (nat top_n) (length stocks))"
proof -
  let ?f = "\<lambda>x. final_score (scores x)"
  from recommendations_exist[OF tick] obtain recs where
    recs: "map (\<lambda>s. recommendation_for s lvl tol) stocks = map Inr recs" by blast
  define srt where "srt = sort_reverse ?f recs"
  define out where "out = assign_ranks (slice_to top_n srt)"
  have len: "length recs = length stocks"
    using arg_cong[OF recs, of length] by simp
  have ret: "fst (rank_recommendations stocks lvl tol top_n w) = Inr out"
    using rank_recommendations_returns[OF recs, of top_n w]
    by (simp add: out_def srt_def)
  have "\<forall>r \<in> set srt. rank r = 0"
    using unranked_recommendations[OF recs] by (simp add: srt_def set_sort_reverse)
  then have z: "\<forall>r \<in> set (slice_to top_n srt). rank r = 0"
    using set_slice_to[of top_n srt] by blast
  have unranked: "map (\<lambda>r. r\<lparr>rank := 0\<rparr>) out = slice_to top_n srt"
    using map_unranked_assign_ranks[of "\<lambda>r. r" "slice_to top_n srt"] rank_reset_id[OF z]
    by (simp add: out_def)
  have ranks: "map rank out = map int [1..<1 + length out]"
    unfolding out_def length_assign_ranks by (rule map_rank_assign_ranks)
  have count: "0 \<le> top_n \<longrightarrow>
          map (\<lambda>r. r\<lparr>rank := 0\<rparr>) out = take (nat top_n) srt
        \<and> length out = min (nat top_n) (length stocks)"
  proof
    assume n: "0 \<le> top_n"
    have "length out = min (nat top_n) (length stocks)"
      by (simp add: out_def length_assign_ranks take_slice[OF n] srt_def length_sort_reverse
            len min.commute)
    with unranked show "map (\<lambda>r. r\<lparr>rank := 0\<rparr>) out = take (nat top_n) srt
        \<and> length out = min (nat top_n) (length stocks)"
      by (simp add: take_slice[OF n])
  qed
  have "mset srt = mset recs" by (simp add: srt_def mset_sort_reverse)
  moreover have "sorted_wrt (\<lambda>a b. ?f a \<ge> ?f b) srt"
    unfolding srt_def by (rule sorted_sort_reverse)
  moreover have "\<forall>k. filter (\<lambda>r. ?f r = k) srt = filter (\<lambda>r. ?f r = k) recs"
    unfolding srt_def by (simp add: stable_sort_reverse)
  ultimately show ?thesis using recs[symmetric] ret ranks unranked count by blast
qed

lemma recommendation_for_final:
  assumes "recommendation_for s lvl tol = Inr r"
  shows "macro_fit_score (scores r) = 50
     \<and> final_score (scores r) =
         min (max (0.4 * research_score (scores r) + 0.3 * signal_score (scores r)
                   + 0.2 * risk_alignment_score (scores r) + 5) 0) 100"
  using recommendation_for_scores(1,5)[OF assms]
  by (simp add: calculate_final_score_def rec_weight_def REC_WEIGHTS_def)

text \<open>
  Claim C5. When every candidate has a ticker (otherwise the loop raises \<^verbatim>\<open>KeyError\<close>),
  \<^verbatim>\<open>rank_recommendations\<close> returns a list \<open>out\<close> such that, for \<open>recs\<close> the recommendations
  of the candidates in input order and \<open>srt\<close> their stable descending sort by final score
  (a permutation of \<open>recs\<close>, descending in final score, in which the recommendations of any
  one final score keep their input order), \<open>out\<close> is the slice \<^verbatim>\<open>srt[:top_n]\<close> with the
  ranks \<open>1, 2, \<dots>\<close> in place of the initial rank 0. For a count \<open>top_n \<ge> 0\<close> these are the
  first \<open>top_n\<close> entries of \<open>srt\<close>, \<open>min top_n (length stocks)\<close> many: the entries beyond
  \<open>top_n\<close> are not returned. In particular, for candidates with final scores 90, 70, 95
  and \<open>top_n = 2\<close> the output is two recommendations, rank 1 with score 95 and rank 2 with
  score 90.
\<close>

theorem rank_recommendations_sorts_and_ranks:
  "((\<forall>s \<in> set stocks. stock_ticker s \<noteq> None) \<longrightarrow>
     (\<exists>recs srt out.
         map Inr recs = map (\<lambda>s. recommendation_for s lvl tol) stocks
       \<and> mset srt = mset recs
       \<and> sorted_wrt (\<lambda>a b. final_score (scores a) \<ge> final_score (scores b)) srt
       \<and> (\<forall>k. filter (\<lambda>r. final_score (scores r) = k) srt =
                filter (\<lambda>r. final_score (scores r) = k) recs)
       \<and> fst (rank_recommendations stocks lvl tol top_n w) = Inr out
       \<and> map rank out = map int [1..<1 + length out]
       \<and> map (\<lambda>r. r\<lparr>rank := 0\<rparr>) out = slice_to top_n srt
       \<and> (0 \<le> top_n \<longrightarrow>
            map (\<lambda>r. r\<lparr>rank := 0\<rparr>) out = take (nat top_n) srt
          \<and> length out = min (nat top_n) (length stocks))))
   \<and> (\<exists>out. fst (rank_recommendations [stock_AAA, stock_BBB, stock_CCC] ''Moderate'' 100 2 w) = Inr out \<and>
        map (\<lambda>r. (rank r, ticker r, final_score (scores r))) out =
          [(1, ''CCC'', 95), (2, ''AAA'', 90)])"
  using rank_recommendations_sorted_top [of stocks lvl tol top_n w] ranking_of_90_70_95 [of w]
  by blast

theorem rank_recommendations_sorts_and_ranks_witness:
  "list_all (\<lambda>s. stock_ticker s \<noteq> None) [stock_TIE1, stock_TIE2, stock_TOP]
   \<and> (0::int) \<le> 2
   \<and> (\<exists>recs srt out.
         map Inr recs = map (\<lambda>s. recommendation_for s ''Moderate'' 100) [stock_TIE1, stock_TIE2, stock_TOP]
       \<and> mset srt = mset recs
       \<and> sorted_wrt (\<lambda>a b. final_score (scores a) \<ge> final_score (scores b)) srt
       \<and> (\<forall>k. filter (\<lambda>r. final_score (scores r) = k) srt =
                filter (\<lambda>r. final_score (scores r) = k) recs)
       \<and> fst (rank_recommendations [stock_TIE1, stock_TIE2, stock_TOP] ''Moderate'' 100 2 quiet) = Inr out
       \<and> length out = 2
       \<and> map rank out = [1, 2]
       \<and> map (\<lambda>r. r\<lparr>rank := 0\<rparr>) out = take 2 srt)
   \<and> (\<exists>out. fst (rank_recommendations [stock_TIE1, stock_TIE2, stock_TOP] ''Moderate'' 100 2 quiet) = Inr out
        \<and> map (\<lambda>r. (rank r, ticker r, final_score (scores r))) out =
             [(1, ''TOP'', 95), (2, ''TIE1'', 90)])"
proof -
  have h: "(\<forall>s \<in> set [stock_TIE1, stock_TIE2, stock_TOP]. stock_ticker s \<noteq> None)"
    by (simp add: example_defs)
  have n: "(0::int) \<le> 2" by simp
  from rank_recommendations_sorts_and_ranks
    [where top_n = 2 and lvl = "''Moderate''" and tol = 100
       and w = "quiet" and stocks = "[stock_TIE1, stock_TIE2, stock_TOP]"] h
  obtain recs srt out where
    "map Inr recs = map (\<lambda>s. recommendation_for s ''Moderate'' 100) [stock_TIE1, stock_TIE2, stock_TOP]"
    "mset srt = mset recs"
    "sorted_wrt (\<lambda>a b. final_score (scores a) \<ge> final_score (scores b)) srt"
    "\<forall>k. filter (\<lambda>r. final_score (scores r) = k) srt =
         filter (\<lambda>r. final_score (scores r) = k) recs"
    "fst (rank_recommendations [stock_TIE1, stock_TIE2, stock_TOP] ''Moderate'' 100 2 quiet) = Inr out"
    "(0::int) \<le> 2 \<longrightarrow>
       map (\<lambda>r. r\<lparr>rank := 0\<rparr>) out = take (nat 2) srt \<and> length out = min (nat 2) (length [stock_TIE1, stock_TIE2, stock_TOP])"
    "map rank out = map int [1..<1 + length out]"
    by blast
  with n have general: "\<exists>recs srt out.
         map Inr recs = map (\<lambda>s. recommendation_for s ''Moderate'' 100) [stock_TIE1, stock_TIE2, stock_TOP]
       \<and> mset srt = mset recs
       \<and> sorted_wrt (\<lambda>a b. final_score (scores a) \<ge> final_score (scores b)) srt
       \<and> (\<forall>k. filter (\<lambda>r. final_score (scores r) = k) srt =
                filter (\<lambda>r. final_score (scores r) = k) recs)
       \<and> fst (rank_recommendations [stock_TIE1, stock_TIE2, stock_TOP] ''Moderate'' 100 2 quiet) = Inr out
       \<and> length out = 2
       \<and> map rank out = [1, 2]
       \<and> map (\<lambda>r. r\<lparr>rank := 0\<rparr>) out = take 2 srt"
    by (intro exI[of _ recs] exI[of _ srt] exI[of _ out]) (simp add: upt_rec)
  have concrete: "\<exists>out. fst (rank_recommendations [stock_TIE1, stock_TIE2, stock_TOP] ''Moderate'' 100 2 quiet) = Inr out
        \<and> map (\<lambda>r. (rank r, ticker r, final_score (scores r))) out =
             [(1, ''TOP'', 95), (2, ''TIE1'', 90)]"
    by (simp add: rank_recommendations_def Let_def recommendation_for_def subscript_def
        sort_reverse_def slice_to_def assign_ranks_def calculate_final_score_def
        calculate_risk_alignment_score_def macro_fit_neutral get_or_def rec_weight_def
        REC_WEIGHTS_def risk_bands_def dict_get_def example_defs)
  have tickers: "list_all (\<lambda>s. stock_ticker s \<noteq> None) [stock_TIE1, stock_TIE2, stock_TOP]"
    by (simp add: example_defs)
  from tickers n general concrete show ?thesis by (intro conjI)
qed

text \<open>
  Claim C9. \<^verbatim>\<open>rank_recommendations\<close> calls \<^verbatim>\<open>calculate_macro_fit_score\<close> with the sector
  only, so the default regime "neutral" applies, whose table gives 50 for every sector it
  lists, and an unlisted sector defaults to 50: the macro-fit score is always exactly 50.
  Hence for every candidate list, user profile and candidate, the recommendation built
  for the candidate, and every recommendation returned, has macro-fit score 50 and final
  score \<open>0.4 * research + 0.3 * signal + 0.2 * risk_alignment + 5\<close>, clamped to
  \<open>[0, 100]\<close>.
\<close>

theorem rank_recommendations_macro_fit_neutral:
  "calculate_macro_fit_score sector default_market_regime = 50
   \<and> (\<forall>s \<in> set stocks. \<forall>r. recommendation_for s lvl tol = Inr r \<longrightarrow>
          macro_fit_score (scores r) = 50
        \<and> final_score (scores r) =
            min (max (0.4 * research_score (scores r) + 0.3 * signal_score (scores r)
                      + 0.2 * risk_alignment_score (scores r) + 5) 0) 100)
   \<and> (\<forall>out. fst (rank_recommendations stocks lvl tol top_n w) = Inr out \<longrightarrow>
          (\<forall>r \<in> set out.
              macro_fit_score (scores r) = 50
            \<and> final_score (scores r) =
                min (max (0.4 * research_score (scores r) + 0.3 * signal_score (scores r)
                          + 0.2 * risk_alignment_score (scores r) + 5) 0) 100))"
proof (intro conjI ballI allI impI)
  show "calculate_macro_fit_score sector default_market_regime = 50"
    by (rule macro_fit_neutral)
next
  fix s r assume "recommendation_for s lvl tol = Inr r"
  from recommendation_for_final[OF this]
  show "macro_fit_score (scores r) = 50"
    and "final_score (scores r) =
          min (max (0.4 * research_score (scores r) + 0.3 * signal_score (scores r)
                    + 0.2 * risk_alignment_score (scores r) + 5) 0) 100"
    by simp_all
next
  fix out r
  assume "fst (rank_recommendations stocks lvl tol top_n w) = Inr out" and "r \<in> set out"
  from rank_recommendations_scores_sources[OF this] obtain s r0 where
    "recommendation_for s lvl tol = Inr r0" and e: "scores r = scores r0" by blast
  from recommendation_for_final[OF this(1)]
  show "macro_fit_score (scores r) = 50"
    and "final_score (scores r) =
          min (max (0.4 * research_score (scores r) + 0.3 * signal_score (scores r)
                    + 0.2 * risk_alignment_score (scores r) + 5) 0) 100"
    by (simp_all add: e)
qed

theorem rank_recommendations_macro_fit_neutral_witness:
  "\<exists>r. fst (rank_recommendations [stock_AAPL] ''Moderate'' 60 10 quiet) = Inr [r]
      \<and> recommendation_for
           stock_AAPL ''Moderate'' 60 = Inr (r\<lparr>rank := 0\<rparr>)
      \<and> risk_alignment_score (scores r) = 88
      \<and> macro_fit_score (scores r) = 50
      \<and> final_score (scores r) = 0.4 * 85 + 0.3 * 75 + 0.2 * 88 + 5"
proof -
  have "\<exists>r. fst (rank_recommendations [stock_AAPL] ''Moderate'' 60 10 quiet) = Inr [r]
      \<and> recommendation_for
           stock_AAPL ''Moderate'' 60 = Inr (r\<lparr>rank := 0\<rparr>)
      \<and> research_score (scores r) = 85 \<and> signal_score (scores r) = 75
      \<and> risk_alignment_score (scores r) = 88"
    by (simp add: rank_recommendations_def Let_def recommendation_for_def subscript_def
          sort_reverse_def slice_to_def assign_ranks_def calculate_risk_alignment_score_def
          get_or_def risk_bands_def dict_get_def example_defs)
  then obtain r where r: "fst (rank_recommendations [stock_AAPL] ''Moderate'' 60 10 quiet) = Inr [r]"
    and r0: "recommendation_for
           stock_AAPL ''Moderate'' 60 = Inr (r\<lparr>rank := 0\<rparr>)"
    and v: "research_score (scores r) = 85" "signal_score (scores r) = 75"
           "risk_alignment_score (scores r) = 88"
    by blast
  from rank_recommendations_macro_fit_neutral
    [where sector = "''Technology''" and lvl = "''Moderate''" and tol = 60 and top_n = 10
       and w = "quiet" and stocks = "[stock_AAPL]"] r
  have "macro_fit_score (scores r) = 50
      \<and> final_score (scores r) =
          min (max (0.4 * research_score (scores r) + 0.3 * signal_score (scores r)
                    + 0.2 * risk_alignment_score (scores r) + 5) 0) 100"
    by simp
  with v have "macro_fit_score (scores r) = 50
      \<and> final_score (scores r) = 0.4 * 85 + 0.3 * 75 + 0.2 * 88 + 5" by simp
  with r r0 v show ?thesis by blast
qed

section \<open>Determinism and effects\<close>

lemma logger_info_only_logs: "only_logs w (logger_info msg w)"
  by (simp add: only_logs_def logger_info_def)

lemma only_logs_refl: "only_logs w w"
  by (simp add: only_logs_def)

lemma only_logs_step:
  assumes "only_logs w w'"
  shows "only_logs w (logger_info msg w')"
proof -
  from assms have c: "clock w' = clock w"
    and t: "take (length (logged w)) (logged w') = logged w"
    by (simp_all add: only_logs_def)
  have "length (take (length (logged w)) (logged w')) = length (logged w)"
    by (simp only: t)
  then have "length (logged w) \<le> length (logged w')" by simp
  with c t show ?thesis by (simp add: only_logs_def logger_info_def)
qed

lemma risk_engine_world:
  "fst (analyze_stock_risk tk hv b de ev q sec vp ic pe pb ps w1) =
     fst (analyze_stock_risk tk hv b de ev q sec vp ic pe pb ps w2)"
  "only_logs w1 (snd (analyze_stock_risk tk hv b de ev q sec vp ic pe pb ps w1))"
  by (simp_all add: analyze_stock_risk_def Let_def only_logs_step logger_info_only_logs)

lemma aggregate_signals_world:
  "fst (aggregate_signals signals tk w1) = fst (aggregate_signals signals tk w2)"
  "only_logs w1 (snd (aggregate_signals signals tk w1))"
  by (simp_all add: aggregate_signals_def Let_def only_logs_refl logger_info_only_logs)

lemma recommendation_engine_world:
  "fst (filter_by_risk_band stocks lvl w1) = fst (filter_by_risk_band stocks lvl w2)"
  "only_logs w1 (snd (filter_by_risk_band stocks lvl w1))"
  "fst (rank_recommendations stocks lvl tol top_n w1) =
     fst (rank_recommendations stocks lvl tol top_n w2)"
  "only_logs w1 (snd (rank_recommendations stocks lvl tol top_n w1))"
  by (simp_all add: filter_by_risk_band_def rank_recommendations_def Let_def case_prod_unfold
        only_logs_step logger_info_only_logs split: sum.split)

lemma clock_logger_info: "clock (logger_info msg w) = clock w"
  by (simp add: logger_info_def)

lemma earnings_surprise_world:
  "fst (detect_earnings_surprise tk a e (Some t) w1) =
     fst (detect_earnings_surprise tk a e (Some t) w2)"
  "clock w1 = clock w2 \<Longrightarrow>
     fst (detect_earnings_surprise tk a e ts w1) = fst (detect_earnings_surprise tk a e ts w2)"
  "map_option (timestamp_update (\<lambda>_. 0)) (fst (detect_earnings_surprise tk a e ts w1)) =
     map_option (timestamp_update (\<lambda>_. 0)) (fst (detect_earnings_surprise tk a e ts w2))"
  "only_logs w1 (snd (detect_earnings_surprise tk a e ts w1))"
  by (simp_all add: detect_earnings_surprise_def Let_def timestamp_or_now_def utcnow_def
        clock_logger_info only_logs_refl logger_info_only_logs split: option.split)

lemma institutional_buying_world:
  "fst (detect_institutional_buying tk c n (Some t) w1) =
     fst (detect_institutional_buying tk c n (Some t) w2)"
  "clock w1 = clock w2 \<Longrightarrow>
     fst (detect_institutional_buying tk c n ts w1) =
       fst (detect_institutional_buying tk c n ts w2)"
  "map_option (timestamp_update (\<lambda>_. 0)) (fst (detect_institutional_buying tk c n ts w1)) =
     map_option (timestamp_update (\<lambda>_. 0)) (fst (detect_institutional_buying tk c n ts w2))"
  "only_logs w1 (snd (detect_institutional_buying tk c n ts w1))"
  by (simp_all add: detect_institutional_buying_def Let_def timestamp_or_now_def utcnow_def
        clock_logger_info only_logs_refl logger_info_only_logs split: option.split)

lemma insider_buying_world:
  "fst (detect_insider_buying tk bv sv n (Some t) w1) =
     fst (detect_insider_buying tk bv sv n (Some t) w2)"
  "clock w1 = clock w2 \<Longrightarrow>
     fst (detect_insider_buying tk bv sv n ts w1) = fst (detect_insider_buying tk bv sv n ts w2)"
  "map_option (timestamp_update (\<lambda>_. 0)) (fst (detect_insider_buying tk bv sv n ts w1)) =
     map_option (timestamp_update (\<lambda>_. 0)) (fst (detect_insider_buying tk bv sv n ts w2))"
  "only_logs w1 (snd (detect_insider_buying tk bv sv n ts w1))"
  by (simp_all add: detect_insider_buying_def Let_def timestamp_or_now_def utcnow_def
        clock_logger_info only_logs_refl logger_info_only_logs split: option.split)

lemma sentiment_spike_world:
  "fst (detect_sentiment_spike tk cs bs n (Some t) w1) =
     fst (detect_sentiment_spike tk cs bs n (Some t) w2)"
  "clock w1 = clock w2 \<Longrightarrow>
     fst (detect_sentiment_spike tk cs bs n ts w1) = fst (detect_sentiment_spike tk cs bs n ts w2)"
  "map_option (timestamp_update (\<lambda>_. 0)) (fst (detect_sentiment_spike tk cs bs n ts w1)) =
     map_option (timestamp_update (\<lambda>_. 0)) (fst (detect_sentiment_spike tk cs bs n ts w2))"
  "only_logs w1 (snd (detect_sentiment_spike tk cs bs n ts w1))"
  by (simp_all add: detect_sentiment_spike_def Let_def timestamp_or_now_def utcnow_def
        clock_logger_info only_logs_refl logger_info_only_logs split: option.split)

text \<open>
  The claim C2 as stated, that two invocations of an operation with equal arguments return
  equal values, fails for the signal detectors: called without a timestamp, a detector
  stamps the signal with \<^verbatim>\<open>datetime.utcnow()\<close>, so the same call at two clock readings
  returns two different signals.
\<close>

theorem detector_reads_clock_counterexample:
  "fst (detect_earnings_surprise ''AAPL'' 1.15 1.00 None \<lparr>clock = 0, logged = []\<rparr>) \<noteq>
   fst (detect_earnings_surprise ''AAPL'' 1.15 1.00 None \<lparr>clock = 1, logged = []\<rparr>)"
  by (simp add: detect_earnings_surprise_def Let_def timestamp_or_now_def utcnow_def
        clock_logger_info)

text \<open>
  Claim C2, amended. Every public operation of the three engines is side-effect-free apart
  from logging (the world after a call differs from the world before only by log lines
  appended), and its returned value does not depend on the world it is called in, with one
  exception: a signal detector called without a timestamp reads the clock for the
  timestamp of the signal it emits. So for any two invocations with equal arguments the
  returned values are equal for \<^verbatim>\<open>analyze_stock_risk\<close>, \<^verbatim>\<open>aggregate_signals\<close>,
  \<^verbatim>\<open>filter_by_risk_band\<close> and \<^verbatim>\<open>rank_recommendations\<close>, and for each of the four
  detectors when a timestamp is supplied or the clock reads the same; in every case the
  two results of a detector differ at most in the timestamp. (The \<^verbatim>\<open>calculate_*\<close>
  functions neither log nor read the clock: they are functions of their arguments.)
\<close>

theorem engines_deterministic_up_to_clock:
  "fst (analyze_stock_risk tk hv b de ev q sec vp ic pe pb ps wa) =
     fst (analyze_stock_risk tk hv b de ev q sec vp ic pe pb ps wb)
   \<and> fst (aggregate_signals signals tk wa) = fst (aggregate_signals signals tk wb)
   \<and> fst (filter_by_risk_band stocks lvl wa) = fst (filter_by_risk_band stocks lvl wb)
   \<and> fst (rank_recommendations stocks lvl tol top_n wa) =
       fst (rank_recommendations stocks lvl tol top_n wb)
   \<and> fst (detect_earnings_surprise tk actual_eps estimated_eps (Some t) wa) =
       fst (detect_earnings_surprise tk actual_eps estimated_eps (Some t) wb)
   \<and> fst (detect_institutional_buying tk ownership_change num_institutions (Some t) wa) =
       fst (detect_institutional_buying tk ownership_change num_institutions (Some t) wb)
   \<and> fst (detect_insider_buying tk buy_volume sell_volume num_insiders (Some t) wa) =
       fst (detect_insider_buying tk buy_volume sell_volume num_insiders (Some t) wb)
   \<and> fst (detect_sentiment_spike tk current baseline mentions (Some t) wa) =
       fst (detect_sentiment_spike tk current baseline mentions (Some t) wb)
   \<and> (clock wa = clock wb \<longrightarrow>
         fst (detect_earnings_surprise tk actual_eps estimated_eps ts wa) =
           fst (detect_earnings_surprise tk actual_eps estimated_eps ts wb)
       \<and> fst (detect_institutional_buying tk ownership_change num_institutions ts wa) =
           fst (detect_institutional_buying tk ownership_change num_institutions ts wb)
       \<and> fst (detect_insider_buying tk buy_volume sell_volume num_insiders ts wa) =
           fst (detect_insider_buying tk buy_volume sell_volume num_insiders ts wb)
       \<and> fst (detect_sentiment_spike tk current baseline mentions ts wa) =
           fst (detect_sentiment_spike tk current baseline mentions ts wb))
   \<and> map_option (timestamp_update (\<lambda>_. 0))
         (fst (detect_earnings_surprise tk actual_eps estimated_eps ts wa)) =
       map_option (timestamp_update (\<lambda>_. 0))
         (fst (detect_earnings_surprise tk actual_eps estimated_eps ts wb))
   \<and> map_option (timestamp_update (\<lambda>_. 0))
         (fst (detect_institutional_buying tk ownership_change num_institutions ts wa)) =
       map_option (timestamp_update (\<lambda>_. 0))
         (fst (detect_institutional_buying tk ownership_change num_institutions ts wb))
   \<and> map_option (timestamp_update (\<lambda>_. 0))
         (fst (detect_insider_buying tk buy_volume sell_volume num_insiders ts wa)) =
       map_option (timestamp_update (\<lambda>_. 0))
         (fst (detect_insider_buying tk buy_volume sell_volume num_insiders ts wb))
   \<and> map_option (timestamp_update (\<lambda>_. 0))
         (fst (detect_sentiment_spike tk current baseline mentions ts wa)) =
       map_option (timestamp_update (\<lambda>_. 0))
         (fst (detect_sentiment_spike tk current baseline mentions ts wb))
   \<and> only_logs wa (snd (analyze_stock_risk tk hv b de ev q sec vp ic pe pb ps wa))
   \<and> only_logs wa (snd (aggregate_signals signals tk wa))
   \<and> only_logs wa (snd (filter_by_risk_band stocks lvl wa))
   \<and> only_logs wa (snd (rank_recommendations stocks lvl tol top_n wa))
   \<and> only_logs wa (snd (detect_earnings_surprise tk actual_eps estimated_eps ts wa))
   \<and> only_logs wa (snd (detect_institutional_buying tk ownership_change num_institutions ts wa))
   \<and> only_logs wa (snd (detect_insider_buying tk buy_volume sell_volume num_insiders ts wa))
   \<and> only_logs wa (snd (detect_sentiment_spike tk current baseline mentions ts wa))"
proof -
  have same_clock:
    "clock wa = clock wb \<longrightarrow>
         fst (detect_earnings_surprise tk actual_eps estimated_eps ts wa) =
           fst (detect_earnings_surprise tk actual_eps estimated_eps ts wb)
       \<and> fst (detect_institutional_buying tk ownership_change num_institutions ts wa) =
           fst (detect_institutional_buying tk ownership_change num_institutions ts wb)
       \<and> fst (detect_insider_buying tk buy_volume sell_volume num_insiders ts wa) =
           fst (detect_insider_buying tk buy_volume sell_volume num_insiders ts wb)
       \<and> fst (detect_sentiment_spike tk current baseline mentions ts wa) =
           fst (detect_sentiment_spike tk current baseline mentions ts wb)"
    by (intro impI conjI earnings_surprise_world(2) institutional_buying_world(2)
          insider_buying_world(2) sentiment_spike_world(2))
  show ?thesis
    by (intro conjI same_clock risk_engine_world aggregate_signals_world
          recommendation_engine_world earnings_surprise_world(1,3,4)
          institutional_buying_world(1,3,4) insider_buying_world(1,3,4)
          sentiment_spike_world(1,3,4))
qed

theorem engines_deterministic_up_to_clock_witness:
  "clock \<lparr>clock = 7, logged = []\<rparr> = clock \<lparr>clock = 7, logged = [[Txt ''earlier line'']]\<rparr>
   \<and> fst (detect_earnings_surprise ''AAPL'' 1.15 1.00 None \<lparr>clock = 7, logged = []\<rparr>) =
       fst (detect_earnings_surprise ''AAPL'' 1.15 1.00 None
              \<lparr>clock = 7, logged = [[Txt ''earlier line'']]\<rparr>)
   \<and> fst (detect_earnings_surprise ''AAPL'' 1.15 1.00 None \<lparr>clock = 7, logged = []\<rparr>) \<noteq> None
   \<and> fst (detect_institutional_buying ''AAPL'' 3.5 4 None \<lparr>clock = 7, logged = []\<rparr>) =
       fst (detect_institutional_buying ''AAPL'' 3.5 4 None
              \<lparr>clock = 7, logged = [[Txt ''earlier line'']]\<rparr>)
   \<and> fst (detect_institutional_buying ''AAPL'' 3.5 4 None \<lparr>clock = 7, logged = []\<rparr>) \<noteq> None
   \<and> fst (detect_insider_buying ''AAPL'' 500000 100000 3 None \<lparr>clock = 7, logged = []\<rparr>) =
       fst (detect_insider_buying ''AAPL'' 500000 100000 3 None
              \<lparr>clock = 7, logged = [[Txt ''earlier line'']]\<rparr>)
   \<and> fst (detect_insider_buying ''AAPL'' 500000 100000 3 None \<lparr>clock = 7, logged = []\<rparr>) \<noteq> None
   \<and> fst (detect_sentiment_spike ''AAPL'' 0.6 0.1 250 None \<lparr>clock = 7, logged = []\<rparr>) =
       fst (detect_sentiment_spike ''AAPL'' 0.6 0.1 250 None
              \<lparr>clock = 7, logged = [[Txt ''earlier line'']]\<rparr>)
   \<and> fst (detect_sentiment_spike ''AAPL'' 0.6 0.1 250 None \<lparr>clock = 7, logged = []\<rparr>) \<noteq> None"
proof -
  have c: "clock \<lparr>clock = 7, logged = []\<rparr> =
           clock \<lparr>clock = 7, logged = [[Txt ''earlier line'']]\<rparr>"
    by simp
  note T = engines_deterministic_up_to_clock
    [where wa = "\<lparr>clock = 7, logged = []\<rparr>"
       and wb = "\<lparr>clock = 7, logged = [[Txt ''earlier line'']]\<rparr>"
       and tk = "''AAPL''" and ts = None and t = 0
       and actual_eps = "1.15" and estimated_eps = "1.00"
       and ownership_change = "3.5" and num_institutions = 4
       and buy_volume = 500000 and sell_volume = 100000 and num_insiders = 3
       and current = "0.6" and baseline = "0.1" and mentions = 250
       and stocks = "[]" and lvl = "''Moderate''" and tol = 60 and top_n = 10
       and hv = "0.25" and vp = None and b = "1.2" and de = "0.5" and ic = None
       and ev = "0.15" and q = 8 and sec = "''Technology''" and pe = "Some 25"
       and pb = "Some 3.5" and ps = None and signals = "[]"]
  from T c have same:
    "fst (detect_earnings_surprise ''AAPL'' 1.15 1.00 None \<lparr>clock = 7, logged = []\<rparr>) =
       fst (detect_earnings_surprise ''AAPL'' 1.15 1.00 None
              \<lparr>clock = 7, logged = [[Txt ''earlier line'']]\<rparr>)"
    "fst (detect_institutional_buying ''AAPL'' 3.5 4 None \<lparr>clock = 7, logged = []\<rparr>) =
       fst (detect_institutional_buying ''AAPL'' 3.5 4 None
              \<lparr>clock = 7, logged = [[Txt ''earlier line'']]\<rparr>)"
    "fst (detect_insider_buying ''AAPL'' 500000 100000 3 None \<lparr>clock = 7, logged = []\<rparr>) =
       fst (detect_insider_buying ''AAPL'' 500000 100000 3 None
              \<lparr>clock = 7, logged = [[Txt ''earlier line'']]\<rparr>)"
    "fst (detect_sentiment_spike ''AAPL'' 0.6 0.1 250 None \<lparr>clock = 7, logged = []\<rparr>) =
       fst (detect_sentiment_spike ''AAPL'' 0.6 0.1 250 None
              \<lparr>clock = 7, logged = [[Txt ''earlier line'']]\<rparr>)"
    by blast+
  have emitted:
    "fst (detect_earnings_surprise ''AAPL'' 1.15 1.00 None \<lparr>clock = 7, logged = []\<rparr>) \<noteq> None"
    "fst (detect_institutional_buying ''AAPL'' 3.5 4 None \<lparr>clock = 7, logged = []\<rparr>) \<noteq> None"
    "fst (detect_insider_buying ''AAPL'' 500000 100000 3 None \<lparr>clock = 7, logged = []\<rparr>) \<noteq> None"
    "fst (detect_sentiment_spike ''AAPL'' 0.6 0.1 250 None \<lparr>clock = 7, logged = []\<rparr>) \<noteq> None"
    by (simp_all add: detect_earnings_surprise_def detect_institutional_buying_def
          detect_insider_buying_def detect_sentiment_spike_def Let_def)
  from c same emitted show ?thesis by (intro conjI)
qed

end
